theory Spec2Isabelle
  imports Complex_Main "HOL-Library.AList"
begin

section \<open>Conventions of the embedding\<close>

text \<open>
  The program is the simulation core of a Python trading system: the indicator library
  and its calculator (\<^verbatim>\<open>strategies/indicators.py\<close>), the strategies
  (\<^verbatim>\<open>strategies/strategies.py\<close>) and the backtest engine
  (\<^verbatim>\<open>backtesting/engine.py\<close>), over the data classes of \<^verbatim>\<open>core/models.py\<close>.

  \<^item> A Python \<^verbatim>\<open>Decimal\<close> is a \<^typ>\<open>rat\<close>: its arithmetic is taken as exact (the
    28-digit rounding of the default decimal context is not modelled).
  \<^item> A Python \<^verbatim>\<open>float\<close> is a \<^typ>\<open>real\<close>: rounding of binary floating point is not
    modelled. \<^verbatim>\<open>float(d)\<close> of a Decimal is \<^const>\<open>of_rat\<close>.
  \<^item> A \<^verbatim>\<open>datetime\<close> is an \<^typ>\<open>int\<close> (seconds).
  \<^item> A period is a \<^typ>\<open>nat\<close>: negative periods are outside the model, a period of
    zero is inside it.
  \<^item> Every \<^verbatim>\<open>raise\<close> and every failing built-in is a value \<open>Inl e\<close> of a sum type.
  \<^item> A field name that several data classes share carries a prefix here (\<open>sig_\<close>,
    \<open>trade_\<close>, \<open>ind_\<close>, \<open>pos_\<close>, \<open>state_\<close>, \<open>result_\<close>, \<open>cfg_\<close>); logging is left out.
\<close>

text \<open>
  The exceptions that the modelled code can raise. \<open>DecimalException\<close> stands for the
  exceptions of a Decimal division by zero (\<^verbatim>\<open>decimal.DivisionByZero\<close> and
  \<^verbatim>\<open>decimal.InvalidOperation\<close>).
\<close>

datatype py_error =
    IndexError
  | ZeroDivisionError
  | ValueError
  | AttributeError
  | DecimalException

text \<open>Python's \<^verbatim>\<open>xs[i]\<close>: a negative index counts from the end, an index out of range raises.\<close>

definition py_get :: "'a list \<Rightarrow> int \<Rightarrow> py_error + 'a" where
  "py_get xs i =
     (if 0 \<le> i \<and> i < int (length xs) then Inr (xs ! nat i)
      else if i < 0 \<and> - int (length xs) \<le> i then Inr (xs ! nat (int (length xs) + i))
      else Inl IndexError)"

text \<open>A list comprehension or loop whose body may raise: the first failure is the result.\<close>

fun collect :: "(py_error + 'a) list \<Rightarrow> py_error + 'a list" where
  "collect [] = Inr []"
| "collect (Inl e # rs) = Inl e"
| "collect (Inr v # rs) = (case collect rs of Inl e \<Rightarrow> Inl e | Inr vs \<Rightarrow> Inr (v # vs))"


section \<open>TechnicalIndicators: the indicator library\<close>

subsection \<open>simple\_moving\_average\<close>

text \<open>
  \<^verbatim>\<open>if len(prices) < period: return []\<close>, then one mean per window
  \<^verbatim>\<open>prices[i:i+period]\<close>. With \<^verbatim>\<open>period = 0\<close> the guard is false and the first
  window's \<^verbatim>\<open>sum([]) / 0\<close> raises.
\<close>

definition simple_moving_average :: "real list \<Rightarrow> nat \<Rightarrow> py_error + real list" where
  "simple_moving_average prices period =
     (if length prices < period then Inr []
      else if period = 0 then Inl ZeroDivisionError
      else Inr (map (\<lambda>i. sum_list (take period (drop i prices)) / real period)
                   [0 ..< length prices - period + 1]))"

subsection \<open>exponential\_moving\_average\<close>

text \<open>The loop \<^verbatim>\<open>for price in prices[period:]\<close>, appending to \<^verbatim>\<open>ema\<close> and reading \<^verbatim>\<open>ema[-1]\<close>.\<close>

fun ema_loop :: "real \<Rightarrow> real list \<Rightarrow> real list \<Rightarrow> real list" where
  "ema_loop multiplier [] ema = ema"
| "ema_loop multiplier (price # rest) ema =
     ema_loop multiplier rest (ema @ [price * multiplier + last ema * (1 - multiplier)])"

definition exponential_moving_average :: "real list \<Rightarrow> nat \<Rightarrow> py_error + real list" where
  "exponential_moving_average prices period =
     (if length prices < period then Inr []
      else if period = 0 then Inl ZeroDivisionError
      else (let multiplier = 2 / (real period + 1);
                sma = sum_list (take period prices) / real period
            in Inr (ema_loop multiplier (drop period prices) [sma])))"

subsection \<open>relative\_strength\_index\<close>

text \<open>
  The RSI of one pair of averages (the source writes these four lines twice):
  \<^verbatim>\<open>100.0 if avg_loss == 0 else 100 - (100 / (1 + avg_gain / avg_loss))\<close>.
\<close>

definition rsi_of :: "real \<Rightarrow> real \<Rightarrow> real" where
  "rsi_of avg_gain avg_loss =
     (if avg_loss = 0 then 100 else 100 - 100 / (1 + avg_gain / avg_loss))"

text \<open>The loop \<^verbatim>\<open>for i in range(period, len(gains))\<close> with Wilder's smoothing.\<close>

fun rsi_loop :: "nat \<Rightarrow> (real \<times> real) list \<Rightarrow> real \<Rightarrow> real \<Rightarrow> real list \<Rightarrow> real list" where
  "rsi_loop period [] avg_gain avg_loss rsi_values = rsi_values"
| "rsi_loop period ((gain, loss) # rest) avg_gain avg_loss rsi_values =
     (let avg_gain' = (avg_gain * (real period - 1) + gain) / real period;
          avg_loss' = (avg_loss * (real period - 1) + loss) / real period
      in rsi_loop period rest avg_gain' avg_loss' (rsi_values @ [rsi_of avg_gain' avg_loss']))"

definition price_changes :: "real list \<Rightarrow> real list" where
  "price_changes prices = map (\<lambda>i. prices ! i - prices ! (i - 1)) [1 ..< length prices]"

definition relative_strength_index :: "real list \<Rightarrow> nat \<Rightarrow> py_error + real list" where
  "relative_strength_index prices period =
     (if length prices < period + 1 then Inr []
      else if period = 0 then Inl ZeroDivisionError
      else (let gains = map (\<lambda>change. max change 0) (price_changes prices);
                losses = map (\<lambda>change. max (- change) 0) (price_changes prices);
                avg_gain = sum_list (take period gains) / real period;
                avg_loss = sum_list (take period losses) / real period
            in Inr (rsi_loop period (zip (drop period gains) (drop period losses))
                      avg_gain avg_loss [rsi_of avg_gain avg_loss])))"


subsection \<open>macd\<close>

text \<open>The dictionary \<^verbatim>\<open>{"macd": ..., "signal": ..., "histogram": ...}\<close> the function returns.\<close>

record macd_dict =
  macd_line :: "real list"
  signal_line :: "real list"
  histogram :: "real list"

text \<open>
  \<^verbatim>\<open>fast_ema[i + start_idx] - slow_ema[i]\<close> for \<^verbatim>\<open>i in range(len(slow_ema))\<close>, and
  \<^verbatim>\<open>macd_line[i + signal_start_idx] - signal_line[i]\<close> for the histogram: the first
  list is read at a shifted index (Python indexing, which may wrap or raise), the second
  at the loop index.
\<close>

definition shifted_difference :: "real list \<Rightarrow> int \<Rightarrow> real list \<Rightarrow> py_error + real list" where
  "shifted_difference xs shift ys =
     collect (map (\<lambda>i. case py_get xs (int i + shift) of
                           Inl e \<Rightarrow> Inl e
                         | Inr x \<Rightarrow> Inr (x - ys ! i))
                  [0 ..< length ys])"

definition macd :: "real list \<Rightarrow> nat \<Rightarrow> nat \<Rightarrow> nat \<Rightarrow> py_error + macd_dict" where
  "macd prices fast_period slow_period signal_period =
     (if length prices < slow_period
      then Inr \<lparr>macd_line = [], signal_line = [], histogram = []\<rparr>
      else
        (case exponential_moving_average prices fast_period of
           Inl e \<Rightarrow> Inl e
         | Inr fast_ema \<Rightarrow>
        (case exponential_moving_average prices slow_period of
           Inl e \<Rightarrow> Inl e
         | Inr slow_ema \<Rightarrow>
        (case shifted_difference fast_ema (int slow_period - int fast_period) slow_ema of
           Inl e \<Rightarrow> Inl e
         | Inr ml \<Rightarrow>
        (case exponential_moving_average ml signal_period of
           Inl e \<Rightarrow> Inl e
         | Inr sl \<Rightarrow>
        (case shifted_difference ml (int signal_period - 1) sl of
           Inl e \<Rightarrow> Inl e
         | Inr h \<Rightarrow> Inr \<lparr>macd_line = ml, signal_line = sl, histogram = h\<rparr>))))))"

subsection \<open>bollinger\_bands\<close>

text \<open>\<^verbatim>\<open>np.std(window)\<close>: the population standard deviation.\<close>

definition np_std :: "real list \<Rightarrow> real" where
  "np_std window =
     (let mean = sum_list window / real (length window)
      in sqrt (sum_list (map (\<lambda>x. (x - mean)\<^sup>2) window) / real (length window)))"

record bands_dict =
  upper :: "real list"
  middle :: "real list"
  lower :: "real list"

definition bollinger_bands :: "real list \<Rightarrow> nat \<Rightarrow> real \<Rightarrow> py_error + bands_dict" where
  "bollinger_bands prices period std_dev =
     (if length prices < period then Inr \<lparr>upper = [], middle = [], lower = []\<rparr>
      else if period = 0 then Inl ZeroDivisionError
      else (let windows = map (\<lambda>i. take period (drop i prices))
                              [0 ..< length prices - period + 1]
            in Inr \<lparr>upper = map (\<lambda>w. sum_list w / real period + std_dev * np_std w) windows,
                    middle = map (\<lambda>w. sum_list w / real period) windows,
                    lower = map (\<lambda>w. sum_list w / real period - std_dev * np_std w) windows\<rparr>))"

subsection \<open>stochastic\_oscillator\<close>

text \<open>\<^verbatim>\<open>max\<close> and \<^verbatim>\<open>min\<close> of a non-empty list; on an empty one Python raises ValueError.\<close>

definition py_max :: "real list \<Rightarrow> py_error + real" where
  "py_max xs = (case xs of [] \<Rightarrow> Inl ValueError | x # rest \<Rightarrow> Inr (fold max rest x))"

definition py_min :: "real list \<Rightarrow> py_error + real" where
  "py_min xs = (case xs of [] \<Rightarrow> Inl ValueError | x # rest \<Rightarrow> Inr (fold min rest x))"

definition stochastic_k :: "real list \<Rightarrow> real list \<Rightarrow> real list \<Rightarrow> nat \<Rightarrow> nat \<Rightarrow> py_error + real" where
  "stochastic_k high_prices low_prices close_prices k_period i =
     (case py_max (take k_period (drop i high_prices)) of
        Inl e \<Rightarrow> Inl e
      | Inr highest_high \<Rightarrow>
     (case py_min (take k_period (drop i low_prices)) of
        Inl e \<Rightarrow> Inl e
      | Inr lowest_low \<Rightarrow>
     (case py_get close_prices (int i + int k_period - 1) of
        Inl e \<Rightarrow> Inl e
      | Inr current_close \<Rightarrow>
          Inr (if highest_high - lowest_low = 0 then 50
               else 100 * ((current_close - lowest_low) / (highest_high - lowest_low))))))"

definition stochastic_oscillator ::
  "real list \<Rightarrow> real list \<Rightarrow> real list \<Rightarrow> nat \<Rightarrow> nat \<Rightarrow> py_error + real list \<times> real list" where
  "stochastic_oscillator high_prices low_prices close_prices k_period d_period =
     (if length close_prices < k_period then Inr ([], [])
      else
        (case collect (map (stochastic_k high_prices low_prices close_prices k_period)
                           [0 ..< length close_prices - k_period + 1]) of
           Inl e \<Rightarrow> Inl e
         | Inr k_values \<Rightarrow>
        (case simple_moving_average k_values d_period of
           Inl e \<Rightarrow> Inl e
         | Inr d_values \<Rightarrow> Inr (k_values, d_values))))"


section \<open>The data classes of core/models.py\<close>

datatype signal_type = BUY | SELL | HOLD | NO_SIGNAL

datatype order_side = OrderBUY | OrderSELL

text \<open>\<^verbatim>\<open>OHLCV\<close>; its field \<^verbatim>\<open>open\<close> is named \<open>open_price\<close> here (\<open>open\<close> is a keyword).\<close>

record ohlcv =
  timestamp :: int
  open_price :: rat
  high :: rat
  low :: rat
  close :: rat
  volume :: int

text \<open>A value of a \<^verbatim>\<open>metadata\<close> dictionary (\<^verbatim>\<open>Dict[str, Any]\<close>).\<close>

datatype meta =
    MInt int
  | MFloat real
  | MStr string
  | MFloats "real list"
  | MTimes "int list"

record signal =
  symbol :: string
  sig_type :: signal_type
  sig_timestamp :: int
  price :: rat
  confidence :: real
  sig_metadata :: "(string \<times> meta) list"

text \<open>
  \<^verbatim>\<open>IndicatorData\<close>: \<^verbatim>\<open>value\<close> is a dictionary from a name to a float or \<^verbatim>\<open>None\<close>.
\<close>

record indicator_data =
  ind_name :: string
  ind_symbol :: string
  ind_timestamp :: int
  ind_value :: "(string \<times> real option) list"
  ind_metadata :: "(string \<times> meta) list"

record trade =
  trade_symbol :: string
  side :: order_side
  trade_quantity :: rat
  trade_price :: rat
  trade_timestamp :: int
  commission :: rat
  pnl :: "rat option"

text \<open>
  \<^verbatim>\<open>Portfolio\<close>: the engine reads and writes \<^verbatim>\<open>total_value\<close> and \<^verbatim>\<open>cash\<close> only; the
  fields \<^verbatim>\<open>positions\<close>, \<^verbatim>\<open>total_pnl\<close> and \<^verbatim>\<open>daily_pnl\<close> keep their defaults throughout
  and are left out.
\<close>

record portfolio =
  total_value :: rat
  cash :: rat


section \<open>IndicatorCalculator\<close>

text \<open>
  \<^verbatim>\<open>__init__\<close> sorts the bars by timestamp (a stable sort, as \<^const>\<open>sort_key\<close> is) and
  caches the derived arrays; the prices are converted by \<^verbatim>\<open>float\<close>.
\<close>

record calculator =
  ohlcv_data :: "ohlcv list"
  close_prices :: "real list"
  high_prices :: "real list"
  low_prices :: "real list"
  volumes :: "int list"
  timestamps :: "int list"

definition IndicatorCalculator :: "ohlcv list \<Rightarrow> calculator" where
  "IndicatorCalculator data =
     (let sorted_data = sort_key timestamp data
      in \<lparr>ohlcv_data = sorted_data,
          close_prices = map (\<lambda>b. of_rat (close b)) sorted_data,
          high_prices = map (\<lambda>b. of_rat (high b)) sorted_data,
          low_prices = map (\<lambda>b. of_rat (low b)) sorted_data,
          volumes = map volume sorted_data,
          timestamps = map timestamp sorted_data\<rparr>)"

text \<open>\<^verbatim>\<open>values[-1] if values else None\<close>.\<close>

definition latest :: "real list \<Rightarrow> real option" where
  "latest values = (if values \<noteq> [] then Some (last values) else None)"

text \<open>
  Each query first calls the library function, then builds the \<^verbatim>\<open>IndicatorData\<close>, whose
  third argument is \<^verbatim>\<open>self.timestamps[-1]\<close>.
\<close>

definition calculate_sma :: "calculator \<Rightarrow> nat \<Rightarrow> py_error + indicator_data" where
  "calculate_sma c period =
     (case simple_moving_average (close_prices c) period of
        Inl e \<Rightarrow> Inl e
      | Inr values \<Rightarrow>
     (case py_get (timestamps c) (- 1) of
        Inl e \<Rightarrow> Inl e
      | Inr ts \<Rightarrow>
          Inr \<lparr>ind_name = ''SMA'', ind_symbol = [], ind_timestamp = ts,
               ind_value = [(''sma'', latest values)],
               ind_metadata = [(''period'', MInt (int period)),
                               (''values'', MFloats values),
                               (''timestamps'', MTimes (drop (period - 1) (timestamps c)))]\<rparr>))"

definition calculate_rsi :: "calculator \<Rightarrow> nat \<Rightarrow> py_error + indicator_data" where
  "calculate_rsi c period =
     (case relative_strength_index (close_prices c) period of
        Inl e \<Rightarrow> Inl e
      | Inr values \<Rightarrow>
     (case py_get (timestamps c) (- 1) of
        Inl e \<Rightarrow> Inl e
      | Inr ts \<Rightarrow>
          Inr \<lparr>ind_name = ''RSI'', ind_symbol = [], ind_timestamp = ts,
               ind_value = [(''rsi'', latest values)],
               ind_metadata = [(''period'', MInt (int period)),
                               (''values'', MFloats values),
                               (''timestamps'', MTimes (drop period (timestamps c)))]\<rparr>))"

definition calculate_macd :: "calculator \<Rightarrow> nat \<Rightarrow> nat \<Rightarrow> nat \<Rightarrow> py_error + indicator_data" where
  "calculate_macd c fast_period slow_period signal_period =
     (case macd (close_prices c) fast_period slow_period signal_period of
        Inl e \<Rightarrow> Inl e
      | Inr macd_data \<Rightarrow>
     (case py_get (timestamps c) (- 1) of
        Inl e \<Rightarrow> Inl e
      | Inr ts \<Rightarrow>
          Inr \<lparr>ind_name = ''MACD'', ind_symbol = [], ind_timestamp = ts,
               ind_value = [(''macd'', latest (macd_line macd_data)),
                            (''signal'', latest (signal_line macd_data)),
                            (''histogram'', latest (histogram macd_data))],
               ind_metadata = [(''fast_period'', MInt (int fast_period)),
                               (''slow_period'', MInt (int slow_period)),
                               (''signal_period'', MInt (int signal_period)),
                               (''macd_line'', MFloats (macd_line macd_data)),
                               (''signal_line'', MFloats (signal_line macd_data)),
                               (''histogram'', MFloats (histogram macd_data))]\<rparr>))"

definition calculate_bollinger_bands :: "calculator \<Rightarrow> nat \<Rightarrow> real \<Rightarrow> py_error + indicator_data" where
  "calculate_bollinger_bands c period std_dev =
     (case bollinger_bands (close_prices c) period std_dev of
        Inl e \<Rightarrow> Inl e
      | Inr bb_data \<Rightarrow>
     (case py_get (timestamps c) (- 1) of
        Inl e \<Rightarrow> Inl e
      | Inr ts \<Rightarrow>
          Inr \<lparr>ind_name = ''BollingerBands'', ind_symbol = [], ind_timestamp = ts,
               ind_value = [(''upper'', latest (upper bb_data)),
                            (''middle'', latest (middle bb_data)),
                            (''lower'', latest (lower bb_data))],
               ind_metadata = [(''period'', MInt (int period)),
                               (''std_dev'', MFloat std_dev),
                               (''upper_band'', MFloats (upper bb_data)),
                               (''middle_band'', MFloats (middle bb_data)),
                               (''lower_band'', MFloats (lower bb_data))]\<rparr>))"

definition calculate_stochastic :: "calculator \<Rightarrow> nat \<Rightarrow> nat \<Rightarrow> py_error + indicator_data" where
  "calculate_stochastic c k_period d_period =
     (case stochastic_oscillator (high_prices c) (low_prices c) (close_prices c)
             k_period d_period of
        Inl e \<Rightarrow> Inl e
      | Inr (k_values, d_values) \<Rightarrow>
     (case py_get (timestamps c) (- 1) of
        Inl e \<Rightarrow> Inl e
      | Inr ts \<Rightarrow>
          Inr \<lparr>ind_name = ''Stochastic'', ind_symbol = [], ind_timestamp = ts,
               ind_value = [(''k'', latest k_values), (''d'', latest d_values)],
               ind_metadata = [(''k_period'', MInt (int k_period)),
                               (''d_period'', MInt (int d_period)),
                               (''k_values'', MFloats k_values),
                               (''d_values'', MFloats d_values)]\<rparr>))"

text \<open>
  The class body of \<^verbatim>\<open>IndicatorCalculator\<close> defines these five queries and no other
  method besides \<^verbatim>\<open>__init__\<close>. A query of the calculator, with its arguments:
\<close>

datatype calculator_query =
    Calculate_sma nat
  | Calculate_rsi nat
  | Calculate_macd nat nat nat
  | Calculate_bollinger_bands nat real
  | Calculate_stochastic nat nat

fun run_query :: "calculator \<Rightarrow> calculator_query \<Rightarrow> py_error + indicator_data" where
  "run_query c (Calculate_sma period) = calculate_sma c period"
| "run_query c (Calculate_rsi period) = calculate_rsi c period"
| "run_query c (Calculate_macd fast_period slow_period signal_period) =
     calculate_macd c fast_period slow_period signal_period"
| "run_query c (Calculate_bollinger_bands period std_dev) =
     calculate_bollinger_bands c period std_dev"
| "run_query c (Calculate_stochastic k_period d_period) =
     calculate_stochastic c k_period d_period"


text \<open>
  The periods a query is meant for: all positive, and for MACD the fast period not above
  the slow one.
\<close>

fun proper_periods :: "calculator_query \<Rightarrow> bool" where
  "proper_periods (Calculate_sma period) = (0 < period)"
| "proper_periods (Calculate_rsi period) = (0 < period)"
| "proper_periods (Calculate_macd fast_period slow_period signal_period) =
     (0 < fast_period \<and> fast_period \<le> slow_period \<and> 0 < signal_period)"
| "proper_periods (Calculate_bollinger_bands period std_dev) = (0 < period)"
| "proper_periods (Calculate_stochastic k_period d_period) = (0 < k_period \<and> 0 < d_period)"

text \<open>
  For each key of a query's \<^verbatim>\<open>value\<close> dictionary, the key of its \<^verbatim>\<open>metadata\<close> dictionary
  under which the whole series of that value is stored.
\<close>

fun series_key :: "string \<Rightarrow> string" where
  "series_key k =
     (if k = ''sma'' \<or> k = ''rsi'' then ''values''
      else if k = ''macd'' then ''macd_line''
      else if k = ''signal'' then ''signal_line''
      else if k = ''upper'' \<or> k = ''middle'' \<or> k = ''lower'' then k @ ''_band''
      else if k = ''k'' \<or> k = ''d'' then k @ ''_values''
      else k)"

text \<open>
  The family a query belongs to (the \<^verbatim>\<open>name\<close> its method gives the result), and the
  named series that the library computes for it from the cached arrays of the calculator.
\<close>

fun family_name :: "calculator_query \<Rightarrow> string" where
  "family_name (Calculate_sma period) = ''SMA''"
| "family_name (Calculate_rsi period) = ''RSI''"
| "family_name (Calculate_macd fast_period slow_period signal_period) = ''MACD''"
| "family_name (Calculate_bollinger_bands period std_dev) = ''BollingerBands''"
| "family_name (Calculate_stochastic k_period d_period) = ''Stochastic''"

fun library_series :: "calculator \<Rightarrow> calculator_query \<Rightarrow> py_error + (string \<times> real list) list" where
  "library_series c (Calculate_sma period) =
     (case simple_moving_average (close_prices c) period of
        Inl e \<Rightarrow> Inl e
      | Inr values \<Rightarrow> Inr [(''sma'', values)])"
| "library_series c (Calculate_rsi period) =
     (case relative_strength_index (close_prices c) period of
        Inl e \<Rightarrow> Inl e
      | Inr values \<Rightarrow> Inr [(''rsi'', values)])"
| "library_series c (Calculate_macd fast_period slow_period signal_period) =
     (case macd (close_prices c) fast_period slow_period signal_period of
        Inl e \<Rightarrow> Inl e
      | Inr m \<Rightarrow> Inr [(''macd'', macd_line m), (''signal'', signal_line m),
                       (''histogram'', histogram m)])"
| "library_series c (Calculate_bollinger_bands period std_dev) =
     (case bollinger_bands (close_prices c) period std_dev of
        Inl e \<Rightarrow> Inl e
      | Inr b \<Rightarrow> Inr [(''upper'', upper b), (''middle'', middle b), (''lower'', lower b)])"
| "library_series c (Calculate_stochastic k_period d_period) =
     (case stochastic_oscillator (high_prices c) (low_prices c) (close_prices c)
             k_period d_period of
        Inl e \<Rightarrow> Inl e
      | Inr (k_values, d_values) \<Rightarrow> Inr [(''k'', k_values), (''d'', d_values)])"


section \<open>Strategies\<close>

text \<open>
  \<^verbatim>\<open>StrategyConfig\<close> (its \<^verbatim>\<open>risk_management\<close> dictionary is never read), and the state
  of a \<^verbatim>\<open>TradingStrategy\<close> object: its configuration and its calculator, \<^verbatim>\<open>None\<close> until
  \<^verbatim>\<open>initialize\<close> has run.
\<close>

record strategy_config =
  cfg_name :: string
  cfg_symbol :: string
  parameters :: "(string \<times> nat) list"

record strategy =
  config :: strategy_config
  indicator_calculator :: "calculator option"

text \<open>\<^verbatim>\<open>parameters.get(key, default)\<close>.\<close>

definition param_get :: "(string \<times> nat) list \<Rightarrow> string \<Rightarrow> nat \<Rightarrow> nat" where
  "param_get ps key dflt = (case map_of ps key of None \<Rightarrow> dflt | Some v \<Rightarrow> v)"

text \<open>\<^verbatim>\<open>metadata.get("values", [])\<close> and \<^verbatim>\<open>value.get(key)\<close>.\<close>

definition meta_values :: "(string \<times> meta) list \<Rightarrow> real list" where
  "meta_values md = (case map_of md ''values'' of Some (MFloats vs) \<Rightarrow> vs | _ \<Rightarrow> [])"

definition value_get :: "(string \<times> real option) list \<Rightarrow> string \<Rightarrow> real option" where
  "value_get v key = (case map_of v key of None \<Rightarrow> None | Some x \<Rightarrow> x)"

text \<open>
  \<^verbatim>\<open>update_indicators\<close> replaces the calculator by one over the given bars. Every
  \<^verbatim>\<open>initialize\<close> fetches a window of history ending now from the data provider and
  passes it to \<^verbatim>\<open>update_indicators\<close>; the fetched bars are the argument here. Nothing
  else calls \<^verbatim>\<open>update_indicators\<close>.
\<close>

definition update_indicators :: "strategy \<Rightarrow> ohlcv list \<Rightarrow> strategy" where
  "update_indicators s data = s\<lparr>indicator_calculator := Some (IndicatorCalculator data)\<rparr>"

definition initialize :: "strategy \<Rightarrow> ohlcv list \<Rightarrow> strategy" where
  "initialize s historical_data = update_indicators s historical_data"

subsection \<open>SimpleMovingAverageStrategy.generate\_signals\<close>

definition sma_crossover :: "real list \<Rightarrow> real list \<Rightarrow> signal_type" where
  "sma_crossover short_sma_values long_sma_values =
     (let short_sma = last short_sma_values; long_sma = last long_sma_values
      in if 2 \<le> length short_sma_values \<and> 2 \<le> length long_sma_values
         then (let prev_short_sma = short_sma_values ! (length short_sma_values - 2);
                   prev_long_sma = long_sma_values ! (length long_sma_values - 2)
               in if prev_short_sma \<le> prev_long_sma \<and> short_sma > long_sma then BUY
                  else if prev_short_sma \<ge> prev_long_sma \<and> short_sma < long_sma then SELL
                  else NO_SIGNAL)
         else NO_SIGNAL)"

definition sma_generate_signals :: "strategy \<Rightarrow> ohlcv list \<Rightarrow> py_error + signal list" where
  "sma_generate_signals s current_data =
     (case indicator_calculator s of
        None \<Rightarrow> Inr []
      | Some calc \<Rightarrow>
     (case py_get current_data (- 1) of
        Inl e \<Rightarrow> Inl e
      | Inr bar \<Rightarrow>
     (case calculate_sma calc (param_get (parameters (config s)) ''short_period'' 5) of
        Inl e \<Rightarrow> Inl e
      | Inr short_sma_indicator \<Rightarrow>
     (case calculate_sma calc (param_get (parameters (config s)) ''long_period'' 20) of
        Inl e \<Rightarrow> Inl e
      | Inr long_sma_indicator \<Rightarrow>
       (let short_sma_values = meta_values (ind_metadata short_sma_indicator);
            long_sma_values = meta_values (ind_metadata long_sma_indicator)
        in if short_sma_values = [] \<or> long_sma_values = [] then Inr []
           else (let st = sma_crossover short_sma_values long_sma_values
                 in if st \<noteq> NO_SIGNAL
                    then Inr [\<lparr>symbol = cfg_symbol (config s), sig_type = st,
                               sig_timestamp = timestamp bar, price = close bar,
                               confidence = 0.7,
                               sig_metadata = [(''short_sma'', MFloat (last short_sma_values)),
                                               (''long_sma'', MFloat (last long_sma_values)),
                                               (''strategy'', MStr ''SMA Crossover'')]\<rparr>]
                    else Inr []))))))"

subsection \<open>MultiIndicatorStrategy.generate\_signals\<close>

text \<open>
  \<^verbatim>\<open>all([sma_20, rsi, macd, signal_line, bb_upper, bb_lower])\<close> tests the truth value of
  each entry: \<^verbatim>\<open>None\<close> is false, and so is the float \<^verbatim>\<open>0.0\<close>.
\<close>

definition truthy :: "real option \<Rightarrow> bool" where
  "truthy v = (case v of None \<Rightarrow> False | Some x \<Rightarrow> x \<noteq> 0)"

text \<open>
  The scoring: \<^verbatim>\<open>buy_signals\<close> and \<^verbatim>\<open>sell_signals\<close> after the four votes;
  \<^verbatim>\<open>total_signals\<close> is 3.5 after them.
\<close>

definition buy_votes :: "real \<Rightarrow> real \<Rightarrow> real \<Rightarrow> real \<Rightarrow> real \<Rightarrow> real \<Rightarrow> real \<Rightarrow> real" where
  "buy_votes current_price sma_20 rsi macd_v signal_v bb_upper bb_lower =
     (if rsi \<le> 30 then 1 else 0) + (if macd_v > signal_v then 1 else 0)
     + (if current_price \<le> bb_lower then 1 else 0)
     + (if current_price > sma_20 then 0.5 else 0)"

definition sell_votes :: "real \<Rightarrow> real \<Rightarrow> real \<Rightarrow> real \<Rightarrow> real \<Rightarrow> real \<Rightarrow> real \<Rightarrow> real" where
  "sell_votes current_price sma_20 rsi macd_v signal_v bb_upper bb_lower =
     (if rsi \<le> 30 then 0 else if rsi \<ge> 70 then 1 else 0)
     + (if macd_v > signal_v then 0 else 1)
     + (if current_price \<le> bb_lower then 0 else if current_price \<ge> bb_upper then 1 else 0)
     + (if current_price > sma_20 then 0 else 0.5)"

definition multi_vote ::
  "strategy_config \<Rightarrow> ohlcv \<Rightarrow> real \<Rightarrow> real \<Rightarrow> real \<Rightarrow> real \<Rightarrow> real \<Rightarrow> real \<Rightarrow> signal list" where
  "multi_vote cfg bar sma_20 rsi macd_v signal_v bb_upper bb_lower =
     (let current_price = of_rat (close bar);
          buy_signals = buy_votes current_price sma_20 rsi macd_v signal_v bb_upper bb_lower;
          sell_signals = sell_votes current_price sma_20 rsi macd_v signal_v bb_upper bb_lower;
          total_signals = 3.5;
          buy_ratio = buy_signals / total_signals;
          sell_ratio = sell_signals / total_signals;
          st = (if buy_ratio \<ge> 0.6 then BUY else if sell_ratio \<ge> 0.6 then SELL else NO_SIGNAL);
          conf = (if buy_ratio \<ge> 0.6 then buy_ratio
                  else if sell_ratio \<ge> 0.6 then sell_ratio else 0)
      in if st \<noteq> NO_SIGNAL
         then [\<lparr>symbol = cfg_symbol cfg, sig_type = st, sig_timestamp = timestamp bar,
                 price = close bar, confidence = conf,
                 sig_metadata = [(''rsi'', MFloat rsi), (''macd'', MFloat macd_v),
                                 (''signal_line'', MFloat signal_v),
                                 (''sma_20'', MFloat sma_20),
                                 (''bb_upper'', MFloat bb_upper),
                                 (''bb_lower'', MFloat bb_lower),
                                 (''buy_signals'', MFloat buy_signals),
                                 (''sell_signals'', MFloat sell_signals),
                                 (''strategy'', MStr ''Multi-Indicator'')]\<rparr>]
         else [])"

definition multi_generate_signals :: "strategy \<Rightarrow> ohlcv list \<Rightarrow> py_error + signal list" where
  "multi_generate_signals s current_data =
     (case indicator_calculator s of
        None \<Rightarrow> Inr []
      | Some calc \<Rightarrow>
     (case py_get current_data (- 1) of
        Inl e \<Rightarrow> Inl e
      | Inr bar \<Rightarrow>
     (case calculate_sma calc 20 of
        Inl e \<Rightarrow> Inl e
      | Inr sma_indicator \<Rightarrow>
     (case calculate_rsi calc 14 of
        Inl e \<Rightarrow> Inl e
      | Inr rsi_indicator \<Rightarrow>
     (case calculate_macd calc 12 26 9 of
        Inl e \<Rightarrow> Inl e
      | Inr macd_indicator \<Rightarrow>
     (case calculate_bollinger_bands calc 20 2 of
        Inl e \<Rightarrow> Inl e
      | Inr bb_indicator \<Rightarrow>
       (let sma_20 = value_get (ind_value sma_indicator) ''sma'';
            rsi = value_get (ind_value rsi_indicator) ''rsi'';
            macd_v = value_get (ind_value macd_indicator) ''macd'';
            signal_v = value_get (ind_value macd_indicator) ''signal'';
            bb_upper = value_get (ind_value bb_indicator) ''upper'';
            bb_lower = value_get (ind_value bb_indicator) ''lower''
        in if \<not> list_all truthy [sma_20, rsi, macd_v, signal_v, bb_upper, bb_lower]
           then Inr []
           else Inr (multi_vote (config s) bar (the sma_20) (the rsi) (the macd_v)
                       (the signal_v) (the bb_upper) (the bb_lower)))))))))"


section \<open>BacktestEngine\<close>

text \<open>
  \<^verbatim>\<open>BacktestConfig\<close>. The field \<^verbatim>\<open>max_position_size\<close> is a float that the engine only
  reads as \<^verbatim>\<open>Decimal(str(max_position_size))\<close>; the field here is that decimal
  (\<open>1/10\<close> for the default \<^verbatim>\<open>0.1\<close>).
\<close>

record backtest_config =
  start_date :: int
  end_date :: int
  initial_capital :: rat
  commission_per_trade :: rat
  slippage :: rat
  max_position_size :: rat

text \<open>
  \<^verbatim>\<open>BacktestPosition\<close>, with exactly the seven fields of the data class. It has no field
  \<^verbatim>\<open>realized_pnl\<close> (the class \<^verbatim>\<open>Position\<close> of core/models.py has one; the engine does
  not use that class).
\<close>

record backtest_position =
  pos_symbol :: string
  quantity :: rat
  entry_price :: rat
  entry_date :: int
  current_price :: rat
  market_value :: rat
  unrealized_pnl :: rat

text \<open>One entry of \<^verbatim>\<open>portfolio_history\<close>, as \<^verbatim>\<open>_record_portfolio_state\<close> builds it.\<close>

record position_state =
  state_quantity :: real
  state_market_value :: real
  state_unrealized_pnl :: real

record portfolio_state =
  state_timestamp :: int
  state_total_value :: real
  state_cash :: real
  state_positions :: "(string \<times> position_state) list"

text \<open>
  The mutable state of a \<^verbatim>\<open>BacktestEngine\<close>. The dictionary \<^verbatim>\<open>positions\<close> is an association
  list in insertion order, which is the order Python iterates it in.
\<close>

record engine =
  portfolio :: portfolio
  positions :: "(string \<times> backtest_position) list"
  trades :: "trade list"
  portfolio_history :: "portfolio_state list"

definition BacktestEngine :: "backtest_config \<Rightarrow> engine" where
  "BacktestEngine cfg =
     \<lparr>portfolio = \<lparr>total_value = initial_capital cfg, cash = initial_capital cfg\<rparr>,
      positions = [], trades = [], portfolio_history = []\<rparr>"

subsection \<open>\_update\_portfolio\_values\<close>

definition mark_position :: "rat \<Rightarrow> backtest_position \<Rightarrow> backtest_position" where
  "mark_position c p =
     p\<lparr>current_price := c,
       market_value := quantity p * c,
       unrealized_pnl := quantity p * c - quantity p * entry_price p\<rparr>"

definition update_portfolio_values :: "engine \<Rightarrow> ohlcv \<Rightarrow> engine" where
  "update_portfolio_values e current_ohlcv =
     e\<lparr>positions := map (\<lambda>(sym, p). (sym, mark_position (close current_ohlcv) p)) (positions e),
       portfolio := (portfolio e)\<lparr>total_value :=
         foldl (\<lambda>total (sym, p). total + quantity p * close current_ohlcv)
               (cash (portfolio e)) (positions e)\<rparr>\<rparr>"

subsection \<open>\_execute\_signal\<close>

text \<open>\<^verbatim>\<open>x.quantize(Decimal('1'), rounding=ROUND_DOWN)\<close>: truncation towards zero.\<close>

definition quantize_down :: "rat \<Rightarrow> rat" where
  "quantize_down x = (if 0 \<le> x then of_int \<lfloor>x\<rfloor> else of_int \<lceil>x\<rceil>)"

text \<open>
  The sized quantity, the execution price and the commission of a signal (lines 124 to 136).
\<close>

definition sized_quantity :: "backtest_config \<Rightarrow> engine \<Rightarrow> signal \<Rightarrow> rat" where
  "sized_quantity cfg e sg =
     quantize_down (total_value (portfolio e) * max_position_size cfg / price sg)"

definition execution_price :: "backtest_config \<Rightarrow> signal \<Rightarrow> rat" where
  "execution_price cfg sg =
     (if sig_type sg = SELL then price sg * (1 - slippage cfg)
      else price sg * (1 + slippage cfg))"

definition commission_of :: "backtest_config \<Rightarrow> engine \<Rightarrow> signal \<Rightarrow> rat" where
  "commission_of cfg e sg =
     execution_price cfg sg * sized_quantity cfg e sg * commission_per_trade cfg"

text \<open>
  The result of a method that mutates the engine: \<open>Inr\<close> the engine after a normal
  return, \<open>Inl\<close> the exception together with the engine as the mutations made before
  the \<^verbatim>\<open>raise\<close> have left it.

  The BUY branch: a rejected order returns early; an accepted one creates the position or
  merges into it, debits the cash and appends the trade.
\<close>

definition execute_buy ::
  "backtest_config \<Rightarrow> signal \<Rightarrow> int \<Rightarrow> engine \<Rightarrow> py_error \<times> engine + engine" where
  "execute_buy cfg sg ts e =
     (let qty = sized_quantity cfg e sg;
          exec_price = execution_price cfg sg;
          comm = commission_of cfg e sg;
          cost = exec_price * qty + comm
      in if cost > cash (portfolio e) then Inr e
         else
           (case map_of (positions e) (symbol sg) of
              Some position \<Rightarrow>
                (let total_quantity = quantity position + qty;
                     total_cost = quantity position * entry_price position + qty * exec_price
                 in if total_quantity = 0 then Inl (DecimalException, e)
                    else Inr (e\<lparr>positions := AList.update (symbol sg)
                                   (position\<lparr>entry_price := total_cost / total_quantity,
                                             quantity := total_quantity\<rparr>) (positions e),
                                portfolio := (portfolio e)\<lparr>cash := cash (portfolio e) - cost\<rparr>,
                                trades := trades e @
                                  [\<lparr>trade_symbol = symbol sg, side = OrderBUY,
                                    trade_quantity = qty, trade_price = exec_price,
                                    trade_timestamp = ts, commission = comm, pnl = None\<rparr>]\<rparr>))
            | None \<Rightarrow>
                Inr (e\<lparr>positions := AList.update (symbol sg)
                          \<lparr>pos_symbol = symbol sg, quantity = qty, entry_price = exec_price,
                           entry_date = ts, current_price = exec_price, market_value = 0,
                           unrealized_pnl = 0\<rparr> (positions e),
                       portfolio := (portfolio e)\<lparr>cash := cash (portfolio e) - cost\<rparr>,
                       trades := trades e @
                         [\<lparr>trade_symbol = symbol sg, side = OrderBUY,
                           trade_quantity = qty, trade_price = exec_price,
                           trade_timestamp = ts, commission = comm, pnl = None\<rparr>]\<rparr>)))"

text \<open>
  The SELL branch. Without a position it returns. With one, it computes
  \<^verbatim>\<open>sell_quantity\<close> and \<^verbatim>\<open>proceeds\<close>, adds the proceeds to the cash (line 183), computes
  \<^verbatim>\<open>cost_basis\<close> and \<^verbatim>\<open>realized_pnl\<close>, and then executes
  \<^verbatim>\<open>position.realized_pnl += realized_pnl\<close> (line 188). The augmented assignment first
  reads the attribute \<^verbatim>\<open>realized_pnl\<close> of a \<^verbatim>\<open>BacktestPosition\<close>, which has no such
  attribute: Python raises AttributeError there. The lines after it (reducing the quantity,
  deleting the position, appending the trade) are never reached.
\<close>

definition sell_quantity_of :: "backtest_config \<Rightarrow> engine \<Rightarrow> signal \<Rightarrow> backtest_position \<Rightarrow> rat" where
  "sell_quantity_of cfg e sg position = min (sized_quantity cfg e sg) (quantity position)"

definition proceeds_of :: "backtest_config \<Rightarrow> engine \<Rightarrow> signal \<Rightarrow> backtest_position \<Rightarrow> rat" where
  "proceeds_of cfg e sg position =
     execution_price cfg sg * sell_quantity_of cfg e sg position - commission_of cfg e sg"

definition execute_sell ::
  "backtest_config \<Rightarrow> signal \<Rightarrow> int \<Rightarrow> engine \<Rightarrow> py_error \<times> engine + engine" where
  "execute_sell cfg sg ts e =
     (case map_of (positions e) (symbol sg) of
        None \<Rightarrow> Inr e
      | Some position \<Rightarrow>
          Inl (AttributeError,
               e\<lparr>portfolio := (portfolio e)\<lparr>cash := cash (portfolio e)
                                               + proceeds_of cfg e sg position\<rparr>\<rparr>))"

definition execute_signal ::
  "backtest_config \<Rightarrow> signal \<Rightarrow> int \<Rightarrow> engine \<Rightarrow> py_error \<times> engine + engine" where
  "execute_signal cfg sg ts e =
     (if sig_type sg \<noteq> BUY \<and> sig_type sg \<noteq> SELL then Inr e
      else if price sg = 0 then Inl (DecimalException, e)
      else if sized_quantity cfg e sg \<le> 0 then Inr e
      else if sig_type sg = BUY then execute_buy cfg sg ts e
      else execute_sell cfg sg ts e)"

subsection \<open>\_record\_portfolio\_state\<close>

definition record_portfolio_state :: "engine \<Rightarrow> int \<Rightarrow> engine" where
  "record_portfolio_state e ts =
     e\<lparr>portfolio_history := portfolio_history e @
         [\<lparr>state_timestamp = ts,
           state_total_value = of_rat (total_value (portfolio e)),
           state_cash = of_rat (cash (portfolio e)),
           state_positions =
             map (\<lambda>(sym, pos). (sym, \<lparr>state_quantity = of_rat (quantity pos),
                                       state_market_value = of_rat (market_value pos),
                                       state_unrealized_pnl = of_rat (unrealized_pnl pos)\<rparr>))
                 (positions e)\<rparr>]\<rparr>"

subsection \<open>The loop of run\_backtest\<close>

text \<open>\<^verbatim>\<open>for signal in signals: await self._execute_signal(signal, ohlcv.timestamp)\<close>.\<close>

fun execute_signals ::
  "backtest_config \<Rightarrow> signal list \<Rightarrow> int \<Rightarrow> engine \<Rightarrow> py_error \<times> engine + engine" where
  "execute_signals cfg [] ts e = Inr e"
| "execute_signals cfg (sg # rest) ts e =
     (case execute_signal cfg sg ts e of
        Inl x \<Rightarrow> Inl x
      | Inr e' \<Rightarrow> execute_signals cfg rest ts e')"

text \<open>
  One pass of the loop body for the bar \<^verbatim>\<open>ohlcv\<close>, where \<^verbatim>\<open>current_data\<close> is
  \<^verbatim>\<open>historical_data[:i+1]\<close> and ends in that bar: mark to market, ask the strategy,
  execute, record. The strategy's \<^verbatim>\<open>generate_signals\<close> is the parameter \<open>gen\<close>.
\<close>

definition process_bar ::
  "backtest_config \<Rightarrow> (ohlcv list \<Rightarrow> py_error + signal list) \<Rightarrow> ohlcv list \<Rightarrow> ohlcv \<Rightarrow> engine
     \<Rightarrow> py_error \<times> engine + engine" where
  "process_bar cfg gen current_data bar e =
     (let e1 = update_portfolio_values e bar
      in case gen current_data of
           Inl err \<Rightarrow> Inl (err, e1)
         | Inr signals \<Rightarrow>
             (case execute_signals cfg signals (timestamp bar) e1 of
                Inl x \<Rightarrow> Inl x
              | Inr e2 \<Rightarrow> Inr (record_portfolio_state e2 (timestamp bar))))"

text \<open>
  \<^verbatim>\<open>for i, ohlcv in enumerate(historical_data)\<close>: \<open>seen\<close> holds the bars before the current
  one, so that \<open>seen @ [bar]\<close> is \<^verbatim>\<open>historical_data[:i+1]\<close>.
\<close>

fun backtest_loop ::
  "backtest_config \<Rightarrow> (ohlcv list \<Rightarrow> py_error + signal list) \<Rightarrow> ohlcv list \<Rightarrow> ohlcv list \<Rightarrow> engine
     \<Rightarrow> py_error \<times> engine + engine" where
  "backtest_loop cfg gen seen [] e = Inr e"
| "backtest_loop cfg gen seen (bar # rest) e =
     (case process_bar cfg gen (seen @ [bar]) bar e of
        Inl x \<Rightarrow> Inl x
      | Inr e' \<Rightarrow> backtest_loop cfg gen (seen @ [bar]) rest e')"


subsection \<open>\_calculate\_results\<close>

record backtest_result =
  strategy_name :: string
  result_symbol :: string
  result_start_date :: int
  result_end_date :: int
  result_initial_capital :: real
  final_capital :: real
  total_return :: real
  annualized_return :: real
  max_drawdown :: real
  sharpe_ratio :: real
  result_trades :: "trade list"
  portfolio_values :: "portfolio_state list"

text \<open>
  The loop of the daily returns, \<^verbatim>\<open>(current_value - prev_value) / prev_value\<close>, and the
  loop of the drawdown with its running peak. A float division by zero raises.
\<close>

fun daily_returns_loop :: "real \<Rightarrow> real list \<Rightarrow> py_error + real list" where
  "daily_returns_loop prev_value [] = Inr []"
| "daily_returns_loop prev_value (current_value # rest) =
     (if prev_value = 0 then Inl ZeroDivisionError
      else (case daily_returns_loop current_value rest of
              Inl err \<Rightarrow> Inl err
            | Inr rs \<Rightarrow> Inr ((current_value - prev_value) / prev_value # rs)))"

fun drawdown_loop :: "real \<Rightarrow> real \<Rightarrow> real list \<Rightarrow> py_error + real" where
  "drawdown_loop peak max_dd [] = Inr max_dd"
| "drawdown_loop peak max_dd (current_value # rest) =
     (let peak' = (if current_value > peak then current_value else peak)
      in if peak' = 0 then Inl ZeroDivisionError
         else drawdown_loop peak' (max max_dd ((peak' - current_value) / peak')) rest)"

text \<open>\<^verbatim>\<open>statistics.mean\<close> and \<^verbatim>\<open>statistics.stdev\<close> (the sample standard deviation).\<close>

definition statistics_mean :: "real list \<Rightarrow> real" where
  "statistics_mean xs = sum_list xs / real (length xs)"

definition statistics_stdev :: "real list \<Rightarrow> real" where
  "statistics_stdev xs =
     sqrt (sum_list (map (\<lambda>x. (x - statistics_mean xs)\<^sup>2) xs) / (real (length xs) - 1))"

text \<open>
  \<^verbatim>\<open>days\<close> is the day count of a time difference in seconds. The annualised return is a
  float power; for a negative base Python yields a complex number, which is outside this
  model (\<^const>\<open>powr\<close> is meant for a base that is not negative).
\<close>

definition calculate_results ::
  "backtest_config \<Rightarrow> engine \<Rightarrow> string \<Rightarrow> string \<Rightarrow> py_error + backtest_result" where
  "calculate_results cfg e name sym_name =
     (if portfolio_history e = [] then
        Inr \<lparr>strategy_name = name, result_symbol = sym_name,
             result_start_date = start_date cfg, result_end_date = end_date cfg,
             result_initial_capital = of_rat (initial_capital cfg),
             final_capital = of_rat (initial_capital cfg),
             total_return = 0, annualized_return = 0, max_drawdown = 0, sharpe_ratio = 0,
             result_trades = [], portfolio_values = []\<rparr>
      else
        (let initial = of_rat (initial_capital cfg);
             final = of_rat (total_value (portfolio e));
             history_values = map state_total_value (portfolio_history e)
         in if initial = 0 then Inl ZeroDivisionError
            else
              (let tr = (final - initial) / initial in
               case daily_returns_loop initial history_values of
                 Inl err \<Rightarrow> Inl err
               | Inr daily_returns \<Rightarrow>
                   (let days = (end_date cfg - start_date cfg) div 86400;
                        ar = (if days > 0 then (1 + tr) powr (365 / real_of_int days) - 1 else 0)
                    in case drawdown_loop initial 0 history_values of
                         Inl err \<Rightarrow> Inl err
                       | Inr dd \<Rightarrow>
                           Inr \<lparr>strategy_name = name, result_symbol = sym_name,
                                result_start_date = start_date cfg,
                                result_end_date = end_date cfg,
                                result_initial_capital = initial,
                                final_capital = final,
                                total_return = tr, annualized_return = ar,
                                max_drawdown = dd,
                                sharpe_ratio =
                                  (if length daily_returns > 1 \<and> statistics_stdev daily_returns > 0
                                   then statistics_mean daily_returns
                                        / statistics_stdev daily_returns * sqrt 252
                                   else 0),
                                result_trades = trades e,
                                portfolio_values = portfolio_history e\<rparr>))))"

subsection \<open>run\_backtest\<close>

text \<open>
  \<open>historical_data\<close> is what the data provider returns for the configured symbol and
  date range. The strategy is an object of an abstract class: its methods \<^verbatim>\<open>initialize\<close>
  and \<^verbatim>\<open>generate_signals\<close> are the parameters \<open>init\<close> and \<open>gen\<close>, its state is \<open>s\<close>
  (none of the four strategies of the repository changes its state in
  \<^verbatim>\<open>generate_signals\<close>). The method raises ValueError on an empty series before it does
  anything else. A normal return gives the result and the engine.
\<close>

definition run_backtest ::
  "backtest_config \<Rightarrow> (strategy \<Rightarrow> py_error + strategy)
     \<Rightarrow> (strategy \<Rightarrow> ohlcv list \<Rightarrow> py_error + signal list)
     \<Rightarrow> strategy \<Rightarrow> ohlcv list \<Rightarrow> engine \<Rightarrow> py_error \<times> engine + backtest_result \<times> engine" where
  "run_backtest cfg init gen s historical_data e =
     (if historical_data = [] then Inl (ValueError, e)
      else
        (case init s of
           Inl err \<Rightarrow> Inl (err, e)
         | Inr s' \<Rightarrow>
        (case backtest_loop cfg (gen s') [] historical_data e of
           Inl x \<Rightarrow> Inl x
         | Inr e' \<Rightarrow>
        (case calculate_results cfg e' (cfg_name (config s')) (cfg_symbol (config s')) of
           Inl err \<Rightarrow> Inl (err, e')
         | Inr result \<Rightarrow> Inr (result, e')))))"


section \<open>Concrete inputs of the scenarios\<close>

text \<open>
  Scenario C: the default slippage and commission, a capital of 10000 and the default
  position size of one tenth, so that a signal at price 100 is sized to 10 units.
\<close>

definition scenario_c_config :: backtest_config where
  "scenario_c_config =
     \<lparr>start_date = 0, end_date = 0, initial_capital = 10000,
      commission_per_trade = 1 / 1000, slippage = 5 / 10000, max_position_size = 1 / 10\<rparr>"

definition scenario_c_signal :: signal where
  "scenario_c_signal =
     \<lparr>symbol = ''TEST'', sig_type = BUY, sig_timestamp = 0, price = 100, confidence = 1,
      sig_metadata = []\<rparr>"

text \<open>
  Scenario A as a bar series: six bars closing at 10, 11, 12, 13, 14 and 15, with highs and
  lows one above and one below the close.
\<close>

definition six_bars :: "ohlcv list" where
  "six_bars =
     map (\<lambda>i. \<lparr>timestamp = i, open_price = of_int (10 + i), high = of_int (11 + i),
                low = of_int (9 + i), close = of_int (10 + i), volume = 1000\<rparr>)
         [0, 1, 2, 3, 4, 5]"

section \<open>The conservation equation and the state after a call\<close>

text \<open>
  The value of the holdings of an engine, \<open>\<Sum> quantity \<times> current price\<close>, and the
  conservation equation \<open>cash + holdings = total_value\<close>, exactly and within a relative
  tolerance.
\<close>

definition holdings_value :: "engine \<Rightarrow> rat" where
  "holdings_value e = sum_list (map (\<lambda>(sym, p). quantity p * current_price p) (positions e))"

definition conservation_gap :: "engine \<Rightarrow> rat" where
  "conservation_gap e = cash (portfolio e) + holdings_value e - total_value (portfolio e)"

definition conserved :: "engine \<Rightarrow> bool" where
  "conserved e = (conservation_gap e = 0)"

definition conserved_within :: "rat \<Rightarrow> engine \<Rightarrow> bool" where
  "conserved_within tol e = (\<bar>conservation_gap e\<bar> \<le> tol * \<bar>total_value (portfolio e)\<bar>)"

text \<open>The engine as a call has left it, whether the call returned or raised.\<close>

definition engine_after :: "py_error \<times> engine + engine \<Rightarrow> engine" where
  "engine_after r = (case r of Inl (err, e) \<Rightarrow> e | Inr e \<Rightarrow> e)"

text \<open>The default configuration of \<^verbatim>\<open>BacktestConfig\<close>, and signals for the symbol TEST.\<close>

definition default_config :: backtest_config where
  "default_config =
     \<lparr>start_date = 0, end_date = 86400, initial_capital = 100000,
      commission_per_trade = 1 / 1000, slippage = 5 / 10000, max_position_size = 1 / 10\<rparr>"

definition test_signal :: "signal_type \<Rightarrow> rat \<Rightarrow> signal" where
  "test_signal st p =
     \<lparr>symbol = ''TEST'', sig_type = st, sig_timestamp = 0, price = p, confidence = 1,
      sig_metadata = []\<rparr>"

definition bar_at :: "int \<Rightarrow> rat \<Rightarrow> ohlcv" where
  "bar_at ts c = \<lparr>timestamp = ts, open_price = c, high = c, low = c, close = c, volume = 1000\<rparr>"

text \<open>
  The engine of the default configuration after it has bought 100 units at the signal
  price 100 (execution price 100.05, commission 10.005).
\<close>

definition holding_engine :: engine where
  "holding_engine =
     \<lparr>portfolio = \<lparr>total_value = 100000, cash = 89984995 / 1000\<rparr>,
      positions = [(''TEST'', \<lparr>pos_symbol = ''TEST'', quantity = 100, entry_price = 10005 / 100,
                               entry_date = 0, current_price = 10005 / 100, market_value = 0,
                               unrealized_pnl = 0\<rparr>)],
      trades = [\<lparr>trade_symbol = ''TEST'', side = OrderBUY, trade_quantity = 100,
                 trade_price = 10005 / 100, trade_timestamp = 0, commission = 10005 / 1000,
                 pnl = None\<rparr>],
      portfolio_history = []\<rparr>"

text \<open>
  A strategy that prices its signals at the close of the current bar, buying on the first
  bar and selling on every later one; and a strategy that is free in pricing its signals
  and emits, on one bar, nine BUY signals at 100, one at 9850 and a SELL at 0.01.
\<close>

definition buy_then_sell :: "ohlcv list \<Rightarrow> py_error + signal list" where
  "buy_then_sell current_data =
     Inr [test_signal (if length current_data = 1 then BUY else SELL) (close (last current_data))]"

definition draining_signals :: "signal list" where
  "draining_signals =
     replicate 9 (test_signal BUY 100) @ [test_signal BUY 9850, test_signal SELL (1 / 100)]"

text \<open>The condition under which a SELL is not clamped below its sized quantity.\<close>

definition sell_covered :: "backtest_config \<Rightarrow> engine \<Rightarrow> signal \<Rightarrow> bool" where
  "sell_covered cfg e sg =
     (0 \<le> price sg \<and> slippage cfg \<le> 1
      \<and> 0 \<le> commission_per_trade cfg \<and> commission_per_trade cfg \<le> 1
      \<and> (case map_of (positions e) (symbol sg) of
            None \<Rightarrow> True
          | Some position \<Rightarrow> sized_quantity cfg e sg \<le> quantity position))"

text \<open>
  An SMA crossover strategy with the periods 1 and 2, and two bar series that agree on
  their first bar: in the first the short average crosses above the long one at the last
  bar, in the second below.
\<close>

definition crossover_strategy :: strategy where
  "crossover_strategy =
     \<lparr>config = \<lparr>cfg_name = ''sma_crossover'', cfg_symbol = ''TEST'',
                 parameters = [(''short_period'', 1), (''long_period'', 2)]\<rparr>,
      indicator_calculator = None\<rparr>"

definition series_up :: "ohlcv list" where
  "series_up = [bar_at 0 100, bar_at 1 90, bar_at 2 110]"

definition series_down :: "ohlcv list" where
  "series_down = [bar_at 0 100, bar_at 1 110, bar_at 2 90]"

text \<open>
  The availability test as the specification words it: a value is available when it is
  not \<^verbatim>\<open>None\<close>. \<open>multi_generate_signals_non_null\<close> is
  \<^const>\<open>multi_generate_signals\<close> with this test in place of the truth-value test.
\<close>

definition available :: "real option \<Rightarrow> bool" where
  "available v = (v \<noteq> None)"

definition multi_generate_signals_non_null :: "strategy \<Rightarrow> ohlcv list \<Rightarrow> py_error + signal list" where
  "multi_generate_signals_non_null s current_data =
     (case indicator_calculator s of
        None \<Rightarrow> Inr []
      | Some calc \<Rightarrow>
     (case py_get current_data (- 1) of
        Inl e \<Rightarrow> Inl e
      | Inr bar \<Rightarrow>
     (case calculate_sma calc 20 of
        Inl e \<Rightarrow> Inl e
      | Inr sma_indicator \<Rightarrow>
     (case calculate_rsi calc 14 of
        Inl e \<Rightarrow> Inl e
      | Inr rsi_indicator \<Rightarrow>
     (case calculate_macd calc 12 26 9 of
        Inl e \<Rightarrow> Inl e
      | Inr macd_indicator \<Rightarrow>
     (case calculate_bollinger_bands calc 20 2 of
        Inl e \<Rightarrow> Inl e
      | Inr bb_indicator \<Rightarrow>
       (let sma_20 = value_get (ind_value sma_indicator) ''sma'';
            rsi = value_get (ind_value rsi_indicator) ''rsi'';
            macd_v = value_get (ind_value macd_indicator) ''macd'';
            signal_v = value_get (ind_value macd_indicator) ''signal'';
            bb_upper = value_get (ind_value bb_indicator) ''upper'';
            bb_lower = value_get (ind_value bb_indicator) ''lower''
        in if \<not> list_all available [sma_20, rsi, macd_v, signal_v, bb_upper, bb_lower]
           then Inr []
           else Inr (multi_vote (config s) bar (the sma_20) (the rsi) (the macd_v)
                       (the signal_v) (the bb_upper) (the bb_lower)))))))))"

text \<open>
  A multi-indicator strategy, and a history of 34 bars for it: 14 closes at 110, then 20
  closes at 100. The series never rises, so its RSI is 0.
\<close>

definition multi_strategy :: strategy where
  "multi_strategy =
     \<lparr>config = \<lparr>cfg_name = ''multi_indicator'', cfg_symbol = ''TEST'', parameters = []\<rparr>,
      indicator_calculator = None\<rparr>"

definition decline_series :: "ohlcv list" where
  "decline_series =
     map (\<lambda>i. bar_at (int i) (if i < 14 then 110 else 100)) [0 ..< 34]"

text \<open>
  What the strategies of the repository have in common: at most one signal per call, for
  the strategy's symbol, priced at the close of the last bar given. A configuration whose
  slippage, commission rate and position size are fractions between 0 and 1. An engine
  with cash that is not negative and at most one position, in the given symbol and of a
  quantity that is not negative.
\<close>

definition prices_at_close :: "(ohlcv list \<Rightarrow> py_error + signal list) \<Rightarrow> string \<Rightarrow> bool" where
  "prices_at_close gen name =
     (\<forall>current_data signals. gen current_data = Inr signals \<longrightarrow>
        length signals \<le> 1
        \<and> (\<forall>sg \<in> set signals. symbol sg = name \<and> price sg = close (last current_data)))"

definition fractions_config :: "backtest_config \<Rightarrow> bool" where
  "fractions_config cfg =
     (0 \<le> slippage cfg \<and> slippage cfg \<le> 1
      \<and> 0 \<le> commission_per_trade cfg \<and> commission_per_trade cfg \<le> 1
      \<and> 0 \<le> max_position_size cfg \<and> max_position_size cfg \<le> 1)"

definition single_holding :: "string \<Rightarrow> engine \<Rightarrow> bool" where
  "single_holding name e =
     (0 \<le> cash (portfolio e)
      \<and> (case positions e of
            [] \<Rightarrow> True
          | [(s, p)] \<Rightarrow> s = name \<and> 0 \<le> quantity p
          | _ \<Rightarrow> False))"

text \<open>
  The outcome of a call keeps that engine invariant, or it is a raise that leaves cash
  that is not negative.
\<close>

definition outcome_ok :: "string \<Rightarrow> py_error \<times> engine + engine \<Rightarrow> bool" where
  "outcome_ok name r =
     (case r of Inr e \<Rightarrow> single_holding name e
              | Inl (err, e) \<Rightarrow> 0 \<le> cash (portfolio e))"

section \<open>The queries of the calculator\<close>

subsection \<open>The library functions return for proper periods\<close>

lemma collect_map_Inr:
  "(\<And>x. x \<in> set xs \<Longrightarrow> f x = Inr (g x)) \<Longrightarrow> collect (map f xs) = Inr (map g xs)"
  by (induction xs) auto

lemma ema_loop_length: "length (ema_loop m rest acc) = length acc + length rest"
  by (induction rest arbitrary: acc) auto

lemma ema_length:
  "0 < p \<Longrightarrow> p \<le> length prices \<Longrightarrow>
   \<exists>xs. exponential_moving_average prices p = Inr xs \<and> length xs = length prices - p + 1"
  by (simp add: exponential_moving_average_def Let_def ema_loop_length)

lemma ema_total: "0 < p \<Longrightarrow> \<exists>xs. exponential_moving_average prices p = Inr xs"
  by (simp add: exponential_moving_average_def Let_def)

lemma shifted_difference_ok:
  assumes "0 \<le> shift" and "int (length ys) + shift \<le> int (length xs)"
  shows "\<exists>zs. shifted_difference xs shift ys = Inr zs \<and> length zs = length ys"
proof -
  have "\<And>i. i \<in> set [0 ..< length ys] \<Longrightarrow>
          (case py_get xs (int i + shift) of Inl e \<Rightarrow> Inl e | Inr x \<Rightarrow> Inr (x - ys ! i))
            = Inr (xs ! nat (int i + shift) - ys ! i)"
    using assms by (auto simp: py_get_def)
  then have "shifted_difference xs shift ys
               = Inr (map (\<lambda>i. xs ! nat (int i + shift) - ys ! i) [0 ..< length ys])"
    unfolding shifted_difference_def by (rule collect_map_Inr)
  then show ?thesis by simp
qed

lemma macd_total:
  assumes "0 < fast_period" "fast_period \<le> slow_period" "0 < signal_period"
  shows "\<exists>m. macd prices fast_period slow_period signal_period = Inr m"
proof (cases "length prices < slow_period")
  case True
  then show ?thesis by (simp add: macd_def)
next
  case False
  then have n: "slow_period \<le> length prices" "fast_period \<le> length prices"
    using assms by simp_all
  from assms have sp: "0 < slow_period" by simp
  obtain fe where fe: "exponential_moving_average prices fast_period = Inr fe"
    "length fe = length prices - fast_period + 1"
    using ema_length [OF assms(1) n(2)] by blast
  obtain se where se: "exponential_moving_average prices slow_period = Inr se"
    "length se = length prices - slow_period + 1"
    using ema_length [OF sp n(1)] by blast
  have "int (length se) + (int slow_period - int fast_period) \<le> int (length fe)"
    using fe(2) se(2) n assms by simp
  moreover have "0 \<le> int slow_period - int fast_period" using assms by simp
  ultimately obtain ml where ml: "shifted_difference fe (int slow_period - int fast_period) se = Inr ml"
    using shifted_difference_ok by blast
  obtain sl where sl: "exponential_moving_average ml signal_period = Inr sl"
    using ema_total [OF assms(3)] by blast
  have "\<exists>h. shifted_difference ml (int signal_period - 1) sl = Inr h"
  proof (cases "length ml < signal_period")
    case True
    with sl have "sl = []" by (simp add: exponential_moving_average_def)
    then show ?thesis by (simp add: shifted_difference_def)
  next
    case False
    then have "signal_period \<le> length ml" by simp
    from ema_length [OF assms(3) this] sl have "length sl = length ml - signal_period + 1"
      by simp
    then have "int (length sl) + (int signal_period - 1) \<le> int (length ml)"
      using False by simp
    moreover have "0 \<le> int signal_period - 1" using assms(3) by simp
    ultimately show ?thesis using shifted_difference_ok by blast
  qed
  then obtain h where h: "shifted_difference ml (int signal_period - 1) sl = Inr h" by blast
  show ?thesis
    using False fe(1) se(1) ml sl h by (simp add: macd_def)
qed

lemma stochastic_k_ok:
  assumes "0 < k" "i + k \<le> length cs" "length hs = length cs" "length ls = length cs"
  shows "\<exists>v. stochastic_k hs ls cs k i = Inr v"
proof -
  have "take k (drop i hs) \<noteq> []" "take k (drop i ls) \<noteq> []"
    using assms by auto
  then obtain a as b bs where "take k (drop i hs) = a # as" "take k (drop i ls) = b # bs"
    by (meson list.exhaust)
  moreover have "\<exists>c. py_get cs (int i + int k - 1) = Inr c"
    using assms by (auto simp: py_get_def)
  ultimately show ?thesis
    by (auto simp: stochastic_k_def py_max_def py_min_def)
qed

lemma collect_all_Inr:
  "(\<And>x. x \<in> set xs \<Longrightarrow> \<exists>v. f x = Inr v) \<Longrightarrow> \<exists>vs. collect (map f xs) = Inr vs"
proof (induction xs)
  case Nil
  then show ?case by simp
next
  case (Cons x xs)
  then obtain v where "f x = Inr v" by auto
  moreover from Cons obtain vs where "collect (map f xs) = Inr vs" by auto
  ultimately show ?case by simp
qed

lemma sma_total: "0 < p \<Longrightarrow> \<exists>vs. simple_moving_average xs p = Inr vs"
  by (simp add: simple_moving_average_def)

lemma stochastic_total:
  assumes "0 < k" "0 < d" "length hs = length cs" "length ls = length cs"
  shows "\<exists>r. stochastic_oscillator hs ls cs k d = Inr r"
proof (cases "length cs < k")
  case True
  then show ?thesis by (simp add: stochastic_oscillator_def)
next
  case False
  have "\<And>i. i \<in> set [0 ..< length cs - k + 1] \<Longrightarrow> \<exists>v. stochastic_k hs ls cs k i = Inr v"
    using False assms by (intro stochastic_k_ok) auto
  then obtain kv where kv: "collect (map (stochastic_k hs ls cs k) [0 ..< length cs - k + 1]) = Inr kv"
    using collect_all_Inr by blast
  obtain dv where "simple_moving_average kv d = Inr dv"
    using sma_total [OF assms(2)] by blast
  with kv False show ?thesis by (simp add: stochastic_oscillator_def)
qed


lemma py_get_last: "xs \<noteq> [] \<Longrightarrow> py_get xs (- 1) = Inr (last xs)"
  by (cases xs rule: rev_cases) (auto simp: py_get_def nth_append)

lemma py_get_empty: "py_get [] i = Inl IndexError"
  by (simp add: py_get_def)

lemma timestamps_length: "length (timestamps (IndicatorCalculator bars)) = length bars"
  by (simp add: IndicatorCalculator_def Let_def)

lemma timestamps_nonempty: "bars \<noteq> [] \<Longrightarrow> timestamps (IndicatorCalculator bars) \<noteq> []"
  using timestamps_length [of bars] by (metis length_0_conv)

lemma calculator_lengths:
  "length (high_prices (IndicatorCalculator bars)) = length (close_prices (IndicatorCalculator bars))"
  "length (low_prices (IndicatorCalculator bars)) = length (close_prices (IndicatorCalculator bars))"
  by (simp_all add: IndicatorCalculator_def Let_def)

lemma rsi_total: "0 < p \<Longrightarrow> \<exists>vs. relative_strength_index xs p = Inr vs"
  by (simp add: relative_strength_index_def Let_def)

lemma bollinger_total: "0 < p \<Longrightarrow> \<exists>b. bollinger_bands xs p k = Inr b"
  by (simp add: bollinger_bands_def Let_def)

lemma run_query_name:
  "run_query c q = Inr d \<Longrightarrow>
     ind_name d = ''SMA'' \<or> ind_name d = ''RSI'' \<or> ind_name d = ''MACD''
     \<or> ind_name d = ''BollingerBands'' \<or> ind_name d = ''Stochastic''"
  by (cases q)
     (auto simp: calculate_sma_def calculate_rsi_def calculate_macd_def
        calculate_bollinger_bands_def calculate_stochastic_def split: sum.splits prod.splits)

subsection \<open>Which queries exist\<close>

text \<open>
  Claim C5, as stated: the calculator has a named query for each of SMA, EMA, RSI, MACD,
  Bollinger Bands, Stochastic, ATR and OBV. It has five queries; none of them returns an
  indicator named EMA, ATR or OBV (these exist as functions of the library only, and the
  calculator caches the volumes without using them).
\<close>

theorem calculator_has_no_ema_atr_obv_query:
  "\<not> (\<exists>c q d. run_query c q = Inr d
         \<and> (ind_name d = ''EMA'' \<or> ind_name d = ''ATR'' \<or> ind_name d = ''OBV''))"
proof
  assume "\<exists>c q d. run_query c q = Inr d
         \<and> (ind_name d = ''EMA'' \<or> ind_name d = ''ATR'' \<or> ind_name d = ''OBV'')"
  then obtain c q d where r: "run_query c q = Inr d"
    and n: "ind_name d = ''EMA'' \<or> ind_name d = ''ATR'' \<or> ind_name d = ''OBV''"
    by blast
  from run_query_name [OF r] n show False by auto
qed

lemma sma_latest:
  assumes "0 < p" and "p \<le> length xs"
  shows "\<exists>values. simple_moving_average xs p = Inr values
           \<and> latest values = Some (sum_list (drop (length xs - p) xs) / real p)"
proof -
  let ?ws = "map (\<lambda>i. sum_list (take p (drop i xs)) / real p) [0 ..< length xs - p + 1]"
  have sm: "simple_moving_average xs p = Inr ?ws"
    using assms by (simp add: simple_moving_average_def)
  have "?ws \<noteq> []" by simp
  moreover have "last ?ws = sum_list (take p (drop (length xs - p) xs)) / real p"
    by (simp add: last_map)
  moreover have "take p (drop (length xs - p) xs) = drop (length xs - p) xs"
    using assms by simp
  ultimately have "latest ?ws = Some (sum_list (drop (length xs - p) xs) / real p)"
    by (simp add: latest_def)
  with sm show ?thesis by blast
qed

lemma close_prices_sorted:
  "close_prices (IndicatorCalculator bars) = map (\<lambda>b. of_rat (close b)) (sort_key timestamp bars)"
  "high_prices (IndicatorCalculator bars) = map (\<lambda>b. of_rat (high b)) (sort_key timestamp bars)"
  "low_prices (IndicatorCalculator bars) = map (\<lambda>b. of_rat (low b)) (sort_key timestamp bars)"
  "timestamps (IndicatorCalculator bars) = map timestamp (sort_key timestamp bars)"
  by (simp_all add: IndicatorCalculator_def Let_def)

text \<open>
  Claim C5, amended: the calculator has a query for each of five families, SMA, RSI, MACD,
  Bollinger Bands and Stochastic. Its arrays are the closes, highs and lows of the bars in
  timestamp order. On a non-empty bar series and with proper periods each query returns:
  the name of its family; the last timestamp; for every series that the library function
  of the family computes from those arrays, the latest element of that series in the value
  dictionary (\<^verbatim>\<open>None\<close> while the series is empty) and the whole series in the metadata.
  For SMA with a period of at most the number of bars, the latest value is the mean of the
  last \<open>period\<close> closes.
\<close>

theorem calculator_exposes_five_queries:
  assumes "bars \<noteq> []" and "proper_periods q"
  shows "\<exists>d series.
           library_series (IndicatorCalculator bars) q = Inr series
         \<and> series \<noteq> []
         \<and> run_query (IndicatorCalculator bars) q = Inr d
         \<and> ind_name d = family_name q
         \<and> ind_timestamp d = last (map timestamp (sort_key timestamp bars))
         \<and> ind_value d = map (\<lambda>(k, vs). (k, latest vs)) series
         \<and> list_all (\<lambda>(k, vs). map_of (ind_metadata d) (series_key k) = Some (MFloats vs)) series
         \<and> close_prices (IndicatorCalculator bars)
             = map (\<lambda>b. of_rat (close b)) (sort_key timestamp bars)
         \<and> high_prices (IndicatorCalculator bars)
             = map (\<lambda>b. of_rat (high b)) (sort_key timestamp bars)
         \<and> low_prices (IndicatorCalculator bars)
             = map (\<lambda>b. of_rat (low b)) (sort_key timestamp bars)
         \<and> (\<forall>p. q = Calculate_sma p \<and> p \<le> length bars \<longrightarrow>
               ind_value d
                 = [(''sma'', Some (sum_list (drop (length bars - p)
                                      (close_prices (IndicatorCalculator bars))) / real p))])"
proof -
  let ?c = "IndicatorCalculator bars"
  have ts: "py_get (timestamps ?c) (- 1) = Inr (last (map timestamp (sort_key timestamp bars)))"
    using assms(1) py_get_last [OF timestamps_nonempty [OF assms(1)]]
    by (simp add: close_prices_sorted)
  have len: "length (close_prices ?c) = length bars"
    by (simp add: close_prices_sorted)
  show ?thesis
  proof (cases q)
    case (Calculate_sma p)
    with assms(2) have p: "0 < p" by simp
    from sma_total [OF this] obtain vs where vs: "simple_moving_average (close_prices ?c) p = Inr vs"
      by blast
    have "latest vs = Some (sum_list (drop (length bars - p) (close_prices ?c)) / real p)"
      if "p \<le> length bars"
      using sma_latest [OF p, of "close_prices ?c"] that vs len by auto
    with vs ts Calculate_sma show ?thesis
      by (simp add: calculate_sma_def close_prices_sorted [symmetric])
  next
    case (Calculate_rsi p)
    with assms(2) have "0 < p" by simp
    from rsi_total [OF this] obtain vs where "relative_strength_index (close_prices ?c) p = Inr vs"
      by blast
    with ts Calculate_rsi show ?thesis
      by (simp add: calculate_rsi_def close_prices_sorted [symmetric])
  next
    case (Calculate_macd f sl sg)
    with assms(2) have "0 < f" "f \<le> sl" "0 < sg" by simp_all
    from macd_total [OF this] obtain m where "macd (close_prices ?c) f sl sg = Inr m"
      by blast
    with ts Calculate_macd show ?thesis
      by (simp add: calculate_macd_def close_prices_sorted [symmetric])
  next
    case (Calculate_bollinger_bands p k)
    with assms(2) have "0 < p" by simp
    from bollinger_total [OF this] obtain b where "bollinger_bands (close_prices ?c) p k = Inr b"
      by blast
    with ts Calculate_bollinger_bands show ?thesis
      by (simp add: calculate_bollinger_bands_def close_prices_sorted [symmetric])
  next
    case (Calculate_stochastic k d)
    with assms(2) have "0 < k" "0 < d" by simp_all
    from stochastic_total [OF this calculator_lengths] obtain kv dv where
      "stochastic_oscillator (high_prices ?c) (low_prices ?c) (close_prices ?c) k d = Inr (kv, dv)"
      by (metis surj_pair)
    with ts Calculate_stochastic show ?thesis
      by (simp add: calculate_stochastic_def close_prices_sorted [symmetric])
  qed
qed

lemma six_bars_sma:
  "simple_moving_average (close_prices (IndicatorCalculator six_bars)) 3 = Inr [11, 12, 13, 14]"
  by code_simp

lemma six_bars_series:
  "library_series (IndicatorCalculator six_bars) (Calculate_sma 3) = Inr [(''sma'', [11, 12, 13, 14])]"
  by (simp add: six_bars_sma)

lemma six_bars_last: "last (map timestamp (sort_key timestamp six_bars)) = 5"
  by code_simp

theorem calculator_exposes_five_queries_witness:
  "six_bars \<noteq> [] \<and> proper_periods (Calculate_sma 3)
   \<and> (\<exists>d. run_query (IndicatorCalculator six_bars) (Calculate_sma 3) = Inr d
          \<and> ind_name d = ''SMA''
          \<and> ind_timestamp d = 5
          \<and> ind_value d = [(''sma'', Some 14)]
          \<and> map_of (ind_metadata d) ''values'' = Some (MFloats [11, 12, 13, 14]))"
proof -
  have a: "six_bars \<noteq> []" by (simp add: six_bars_def)
  have b: "proper_periods (Calculate_sma 3)" by simp
  from calculator_exposes_five_queries [OF a b] obtain d series where
    s: "library_series (IndicatorCalculator six_bars) (Calculate_sma 3) = Inr series"
    and r: "run_query (IndicatorCalculator six_bars) (Calculate_sma 3) = Inr d"
    and n: "ind_name d = family_name (Calculate_sma 3)"
    and t: "ind_timestamp d = last (map timestamp (sort_key timestamp six_bars))"
    and v: "ind_value d = map (\<lambda>(k, vs). (k, latest vs)) series"
    and m: "list_all (\<lambda>(k, vs). map_of (ind_metadata d) (series_key k) = Some (MFloats vs)) series"
    by blast
  from s six_bars_series have "series = [(''sma'', [11, 12, 13, 14])]" by simp
  with v m have "ind_value d = [(''sma'', Some 14)]"
    "map_of (ind_metadata d) ''values'' = Some (MFloats [11, 12, 13, 14])"
    by (simp_all add: latest_def)
  with a b r n t six_bars_last show ?thesis by simp
qed

subsection \<open>The queries on an empty series\<close>

text \<open>
  Claim C10: each of the five queries reads \<^verbatim>\<open>self.timestamps[-1]\<close> after the library
  call. On a calculator built from an empty series that read is out of bounds: with
  positive periods every query raises IndexError, although the library functions
  themselves return empty results on the empty input; and whatever the periods are, no
  query returns on the empty series, so a query that returns was given a non-empty one.
\<close>

theorem calculator_query_on_empty_series:
  assumes "0 < period" and "0 < fast_period" and "0 < slow_period" and "0 < signal_period"
    and "0 < k_period" and "0 < d_period"
  shows "calculate_sma (IndicatorCalculator []) period = Inl IndexError
       \<and> calculate_rsi (IndicatorCalculator []) period = Inl IndexError
       \<and> calculate_macd (IndicatorCalculator []) fast_period slow_period signal_period
           = Inl IndexError
       \<and> calculate_bollinger_bands (IndicatorCalculator []) period std_dev = Inl IndexError
       \<and> calculate_stochastic (IndicatorCalculator []) k_period d_period = Inl IndexError
       \<and> simple_moving_average [] period = Inr []
       \<and> relative_strength_index [] period = Inr []
       \<and> macd [] fast_period slow_period signal_period
           = Inr \<lparr>macd_line = [], signal_line = [], histogram = []\<rparr>
       \<and> bollinger_bands [] period std_dev = Inr \<lparr>upper = [], middle = [], lower = []\<rparr>
       \<and> stochastic_oscillator [] [] [] k_period d_period = Inr ([], [])
       \<and> (\<forall>q d. run_query (IndicatorCalculator []) q \<noteq> Inr d)"
proof -
  have c: "close_prices (IndicatorCalculator []) = []" "high_prices (IndicatorCalculator []) = []"
    "low_prices (IndicatorCalculator []) = []" "timestamps (IndicatorCalculator []) = []"
    by (simp_all add: IndicatorCalculator_def)
  have lib: "simple_moving_average [] period = Inr []"
    "relative_strength_index [] period = Inr []"
    "macd [] fast_period slow_period signal_period
           = Inr \<lparr>macd_line = [], signal_line = [], histogram = []\<rparr>"
    "bollinger_bands [] period std_dev = Inr \<lparr>upper = [], middle = [], lower = []\<rparr>"
    "stochastic_oscillator [] [] [] k_period d_period = Inr ([], [])"
    using assms
    by (simp_all add: simple_moving_average_def relative_strength_index_def macd_def
        bollinger_bands_def stochastic_oscillator_def)
  have q: "run_query (IndicatorCalculator []) q \<noteq> Inr d" for q d
    by (cases q)
       (auto simp: c py_get_empty calculate_sma_def calculate_rsi_def calculate_macd_def
          calculate_bollinger_bands_def calculate_stochastic_def split: sum.splits prod.splits)
  show ?thesis
    using lib q
    by (simp add: c py_get_empty calculate_sma_def calculate_rsi_def calculate_macd_def
          calculate_bollinger_bands_def calculate_stochastic_def)
qed

theorem calculator_query_on_empty_series_witness:
  "(0::nat) < 20 \<and> (0::nat) < 12 \<and> (0::nat) < 26 \<and> (0::nat) < 9 \<and> (0::nat) < 14 \<and> (0::nat) < 3
   \<and> calculate_sma (IndicatorCalculator []) 20 = Inl IndexError
   \<and> calculate_rsi (IndicatorCalculator []) 20 = Inl IndexError
   \<and> calculate_macd (IndicatorCalculator []) 12 26 9 = Inl IndexError
   \<and> calculate_bollinger_bands (IndicatorCalculator []) 20 2 = Inl IndexError
   \<and> calculate_stochastic (IndicatorCalculator []) 14 3 = Inl IndexError
   \<and> simple_moving_average [] 20 = Inr []
   \<and> stochastic_oscillator [] [] [] 14 3 = Inr ([], [])"
  using calculator_query_on_empty_series [of 20 12 26 9 14 3 2]
  by simp


section \<open>Executing a SELL\<close>

text \<open>
  The engine \<^const>\<open>holding_engine\<close> is what a BUY at 100 makes of the initial engine of the
  default configuration.
\<close>

lemma sized_default_100:
  "sized_quantity default_config (BacktestEngine default_config) (test_signal st 100) = 100"
  by (simp add: sized_quantity_def default_config_def BacktestEngine_def test_signal_def quantize_down_def)

lemma holding_engine_reached:
  "execute_signal default_config (test_signal BUY 100) 0 (BacktestEngine default_config)
     = Inr holding_engine"
  unfolding execute_signal_def execute_buy_def commission_of_def execution_price_def Let_def sized_default_100
  by (simp add: default_config_def BacktestEngine_def test_signal_def holding_engine_def)

lemma sized_holding_100:
  "sized_quantity default_config holding_engine (test_signal st 100) = 100"
  by (simp add: sized_quantity_def default_config_def holding_engine_def test_signal_def quantize_down_def)

lemma sell_raises_attribute_error:
  "execute_signal default_config (test_signal SELL 100) 1 holding_engine
     = Inl (AttributeError,
            holding_engine\<lparr>portfolio := \<lparr>total_value = 100000, cash = 99970\<rparr>\<rparr>)
   \<and> execute_signal default_config (test_signal SELL 100) 1 (BacktestEngine default_config)
     = Inr (BacktestEngine default_config)"
proof -
  have "execute_signal default_config (test_signal SELL 100) 1 holding_engine
     = Inl (AttributeError,
            holding_engine\<lparr>portfolio := \<lparr>total_value = 100000, cash = 99970\<rparr>\<rparr>)"
    unfolding execute_signal_def execute_sell_def proceeds_of_def sell_quantity_of_def
      commission_of_def execution_price_def sized_holding_100
    by (simp add: default_config_def test_signal_def holding_engine_def)
  moreover have "execute_signal default_config (test_signal SELL 100) 1 (BacktestEngine default_config)
     = Inr (BacktestEngine default_config)"
    unfolding execute_signal_def execute_sell_def sized_default_100
    by (simp add: default_config_def test_signal_def BacktestEngine_def)
  ultimately show ?thesis by simp
qed

lemma sell_run_aborts:
  "backtest_loop default_config (\<lambda>current_data. Inr [test_signal SELL 100]) []
       [bar_at 1 100, bar_at 2 100] holding_engine
     = Inl (AttributeError,
            \<lparr>portfolio = \<lparr>total_value = 99984995 / 1000, cash = 9987014995 / 100000\<rparr>,
             positions = [(''TEST'', \<lparr>pos_symbol = ''TEST'', quantity = 100,
                                      entry_price = 10005 / 100, entry_date = 0,
                                      current_price = 100, market_value = 10000,
                                      unrealized_pnl = - 5\<rparr>)],
             trades = trades holding_engine,
             portfolio_history = []\<rparr>)"
proof -
  let ?e1 = "update_portfolio_values holding_engine (bar_at 1 100)"
  have e1: "?e1 = \<lparr>portfolio = \<lparr>total_value = 99984995 / 1000, cash = 89984995 / 1000\<rparr>,
             positions = [(''TEST'', \<lparr>pos_symbol = ''TEST'', quantity = 100,
                                      entry_price = 10005 / 100, entry_date = 0,
                                      current_price = 100, market_value = 10000,
                                      unrealized_pnl = - 5\<rparr>)],
             trades = trades holding_engine,
             portfolio_history = []\<rparr>"
    by (simp add: update_portfolio_values_def holding_engine_def bar_at_def mark_position_def)
  have sq: "sized_quantity default_config ?e1 (test_signal SELL 100) = 99"
    unfolding e1
    by (simp add: sized_quantity_def default_config_def test_signal_def quantize_down_def
        floor_eq_iff)
  have "execute_signal default_config (test_signal SELL 100) 1 ?e1
     = Inl (AttributeError,
            \<lparr>portfolio = \<lparr>total_value = 99984995 / 1000, cash = 9987014995 / 100000\<rparr>,
             positions = [(''TEST'', \<lparr>pos_symbol = ''TEST'', quantity = 100,
                                      entry_price = 10005 / 100, entry_date = 0,
                                      current_price = 100, market_value = 10000,
                                      unrealized_pnl = - 5\<rparr>)],
             trades = trades holding_engine,
             portfolio_history = []\<rparr>)"
    unfolding execute_signal_def execute_sell_def proceeds_of_def sell_quantity_of_def
      commission_of_def execution_price_def sq
    unfolding e1
    by (simp add: default_config_def test_signal_def)
  then show ?thesis
    by (simp add: process_bar_def Let_def bar_at_def)
qed

text \<open>
  Claim C3 says that a SELL with an open position sells the clamped quantity, credits the
  proceeds, credits the realized P\&L to the position, reduces or deletes the position,
  records a trade and lets the run continue. The code does the first two steps and then
  raises AttributeError at \<^verbatim>\<open>position.realized_pnl += realized_pnl\<close>, because
  \<^verbatim>\<open>BacktestPosition\<close> has no such field. Evaluated on the engine that holds 100 units:
  the SELL raises, the cash has been credited (89984.995 + 9985.005 = 99970), the position
  still holds its 100 units and no trade has been appended; a run whose strategy emits the
  SELL stops at that bar with the exception, before recording the step and without
  reaching the second bar. Only the no-op without a position is as the claim says.
\<close>

theorem sell_with_open_position_raises:
  "execute_signal default_config (test_signal SELL 100) 1 holding_engine
     = Inl (AttributeError,
            holding_engine\<lparr>portfolio := \<lparr>total_value = 100000, cash = 99970\<rparr>\<rparr>)
   \<and> execute_signal default_config (test_signal SELL 100) 1 (BacktestEngine default_config)
     = Inr (BacktestEngine default_config)
   \<and> backtest_loop default_config (\<lambda>current_data. Inr [test_signal SELL 100]) []
       [bar_at 1 100, bar_at 2 100] holding_engine
     = Inl (AttributeError,
            \<lparr>portfolio = \<lparr>total_value = 99984995 / 1000, cash = 9987014995 / 100000\<rparr>,
             positions = [(''TEST'', \<lparr>pos_symbol = ''TEST'', quantity = 100,
                                      entry_price = 10005 / 100, entry_date = 0,
                                      current_price = 100, market_value = 10000,
                                      unrealized_pnl = - 5\<rparr>)],
             trades = trades holding_engine,
             portfolio_history = []\<rparr>)"
  using sell_raises_attribute_error sell_run_aborts by simp


section \<open>Conservation at the recorded steps\<close>

text \<open>
  Marking to market establishes \<open>cash + \<Sum> quantity \<times> current price = total_value\<close>, and
  a step in which no order is executed (no trade is appended) records a state in which it
  still holds.
\<close>

lemma foldl_total:
  "foldl (\<lambda>total (sym, p). total + quantity p * c) a ps
     = a + sum_list (map (\<lambda>(sym, p). quantity p * c) ps)"
  by (induction ps arbitrary: a) (auto simp: algebra_simps)

lemma holdings_after_mark:
  "holdings_value (update_portfolio_values e bar)
     = sum_list (map (\<lambda>(sym, p). quantity p * close bar) (positions e))"
  by (simp add: holdings_value_def update_portfolio_values_def mark_position_def comp_def
      case_prod_unfold)

lemma total_after_mark:
  "total_value (portfolio (update_portfolio_values e bar))
     = cash (portfolio e) + sum_list (map (\<lambda>(sym, p). quantity p * close bar) (positions e))"
  by (simp add: update_portfolio_values_def foldl_total)

lemma cash_after_mark:
  "cash (portfolio (update_portfolio_values e bar)) = cash (portfolio e)"
  by (simp add: update_portfolio_values_def)

lemma conserved_after_mark: "conserved (update_portfolio_values e bar)"
  by (simp add: conserved_def conservation_gap_def holdings_after_mark total_after_mark
      cash_after_mark)

lemma execute_signal_trades:
  assumes "execute_signal cfg sg ts e = Inr e'"
  shows "(e' = e \<or> length (trades e') = Suc (length (trades e)))"
  using assms
  by (auto simp: execute_signal_def execute_buy_def execute_sell_def Let_def
      split: option.splits if_splits)

lemma execute_signals_trades:
  "execute_signals cfg sgs ts e = Inr e' \<Longrightarrow>
     length (trades e) \<le> length (trades e') \<and> (length (trades e') = length (trades e) \<longrightarrow> e' = e)"
proof (induction sgs arbitrary: e)
  case Nil
  then show ?case by simp
next
  case (Cons sg sgs)
  then obtain e1 where e1: "execute_signal cfg sg ts e = Inr e1"
    and rest: "execute_signals cfg sgs ts e1 = Inr e'"
    by (auto split: sum.splits)
  from Cons.IH [OF rest] execute_signal_trades [OF e1] show ?case by auto
qed

lemma conserved_record: "conserved (record_portfolio_state e ts) = conserved e"
  by (simp add: conserved_def conservation_gap_def holdings_value_def record_portfolio_state_def)

lemma step_without_execution_conserved:
  assumes "process_bar cfg gen current_data bar e = Inr e'"
    and "length (trades e') = length (trades e)"
  shows "conserved e'"
proof -
  let ?e1 = "update_portfolio_values e bar"
  from assms(1) obtain sgs e2 where x: "execute_signals cfg sgs (timestamp bar) ?e1 = Inr e2"
    and r: "e' = record_portfolio_state e2 (timestamp bar)"
    by (auto simp: process_bar_def Let_def split: sum.splits)
  have "trades e' = trades e2" "trades ?e1 = trades e"
    using r by (simp_all add: record_portfolio_state_def update_portfolio_values_def)
  with assms(2) have "length (trades e2) = length (trades ?e1)" by simp
  with execute_signals_trades [OF x] have "e2 = ?e1" by simp
  with r show ?thesis by (simp add: conserved_record conserved_after_mark)
qed

text \<open>
  A run of the SMA crossover strategy over one bar closing at 100. The result of
  \<^verbatim>\<open>run_backtest\<close> reports a final capital of 100000 and a return of 0, although the
  engine has paid 10.005 of commission and its cash and holdings are worth 99989.995.
\<close>

lemma first_bar_run:
  "backtest_loop default_config
       (sma_generate_signals (initialize crossover_strategy series_up)) []
       (take 1 series_up) (BacktestEngine default_config)
     = Inr (holding_engine\<lparr>portfolio_history :=
              [\<lparr>state_timestamp = 0, state_total_value = 100000,
                state_cash = 89984995 / 1000,
                state_positions = [(''TEST'', \<lparr>state_quantity = 100, state_market_value = 0,
                                               state_unrealized_pnl = 0\<rparr>)]\<rparr>]\<rparr>)"
  by code_simp

lemma stale_total_is_final_capital:
  "\<exists>result e. run_backtest default_config (\<lambda>s. Inr (initialize s series_up))
                 sma_generate_signals crossover_strategy (take 1 series_up)
                 (BacktestEngine default_config) = Inr (result, e)
      \<and> final_capital result = 100000 \<and> total_return result = 0
      \<and> cash (portfolio e) + holdings_value e = 99989995 / 1000"
proof -
  have ne: "take 1 series_up \<noteq> []" by (simp add: series_up_def)
  have nm: "cfg_name (config (initialize crossover_strategy series_up)) = ''sma_crossover''"
    "cfg_symbol (config (initialize crossover_strategy series_up)) = ''TEST''"
    by (simp_all add: initialize_def update_indicators_def crossover_strategy_def)
  let ?e = "holding_engine\<lparr>portfolio_history :=
              [\<lparr>state_timestamp = 0, state_total_value = 100000,
                state_cash = 89984995 / 1000,
                state_positions = [(''TEST'', \<lparr>state_quantity = 100, state_market_value = 0,
                                               state_unrealized_pnl = 0\<rparr>)]\<rparr>]\<rparr>"
  have "\<exists>result. calculate_results default_config ?e ''sma_crossover'' ''TEST'' = Inr result
          \<and> final_capital result = 100000 \<and> total_return result = 0"
    by (simp add: calculate_results_def Let_def default_config_def holding_engine_def)
  then obtain result where res: "calculate_results default_config ?e ''sma_crossover'' ''TEST'' = Inr result"
    "final_capital result = 100000" "total_return result = 0"
    by blast
  have "run_backtest default_config (\<lambda>s. Inr (initialize s series_up))
                 sma_generate_signals crossover_strategy (take 1 series_up)
                 (BacktestEngine default_config) = Inr (result, ?e)"
    by (simp only: run_backtest_def ne if_False sum.case first_bar_run nm res)
  moreover have "cash (portfolio ?e) + holdings_value ?e = 99989995 / 1000"
    by (simp add: holding_engine_def holdings_value_def)
  ultimately show ?thesis using res by blast
qed

text \<open>
  Claim C1: at every recorded step, also one at which a BUY or SELL was executed between
  the mark-to-market and the snapshot, \<open>cash + \<Sum> quantity \<times> current price =
  total_value\<close> within a relative tolerance of \<open>10\<^sup>-\<^sup>6\<close>. The code computes the total as
  cash plus holdings in \<^verbatim>\<open>_update_portfolio_values\<close>, before the orders of the step, and
  does not compute it again after them: the snapshot pairs the cash after the trade with
  the total before it. In the run over one bar closing at 100 the strategy buys 100 units
  at 100.05 and pays 10.005 of commission; the recorded step has total value 100000 and
  cash 89984.995, the holdings are worth 10005, so the left side is 99989.995, off by the
  commission, a relative error of about \<open>10\<^sup>-\<^sup>4\<close>.
\<close>

theorem executed_buy_breaks_conservation:
  "backtest_loop default_config
       (sma_generate_signals (initialize crossover_strategy series_up)) []
       (take 1 series_up) (BacktestEngine default_config)
     = Inr (holding_engine\<lparr>portfolio_history :=
              [\<lparr>state_timestamp = 0, state_total_value = 100000,
                state_cash = 89984995 / 1000,
                state_positions = [(''TEST'', \<lparr>state_quantity = 100, state_market_value = 0,
                                               state_unrealized_pnl = 0\<rparr>)]\<rparr>]\<rparr>)
   \<and> cash (portfolio holding_engine) + holdings_value holding_engine = 99989995 / 1000
   \<and> total_value (portfolio holding_engine) = 100000
   \<and> \<not> conserved_within (1 / 1000000)
         (holding_engine\<lparr>portfolio_history :=
              [\<lparr>state_timestamp = 0, state_total_value = 100000,
                state_cash = 89984995 / 1000,
                state_positions = [(''TEST'', \<lparr>state_quantity = 100, state_market_value = 0,
                                               state_unrealized_pnl = 0\<rparr>)]\<rparr>]\<rparr>)"
  by code_simp


section \<open>Cash\<close>

subsection \<open>The single operations\<close>

lemma cash_record: "cash (portfolio (record_portfolio_state e ts)) = cash (portfolio e)"
  by (simp add: record_portfolio_state_def)

lemma execute_buy_cash:
  "engine_after (execute_buy cfg sg ts e) = e
   \<or> (cash (portfolio (engine_after (execute_buy cfg sg ts e)))
         = cash (portfolio e)
           - (execution_price cfg sg * sized_quantity cfg e sg + commission_of cfg e sg)
       \<and> execution_price cfg sg * sized_quantity cfg e sg + commission_of cfg e sg
           \<le> cash (portfolio e))"
  by (auto simp: execute_buy_def engine_after_def Let_def split: option.splits)

lemma execute_buy_rejected:
  "cash (portfolio e) < execution_price cfg sg * sized_quantity cfg e sg + commission_of cfg e sg
   \<Longrightarrow> execute_buy cfg sg ts e = Inr e"
  by (simp add: execute_buy_def Let_def)

lemma proceeds_covered:
  assumes "0 \<le> price sg" "slippage cfg \<le> 1" "0 \<le> commission_per_trade cfg"
    "commission_per_trade cfg \<le> 1" "sized_quantity cfg e sg \<le> quantity position"
    "0 < sized_quantity cfg e sg" "sig_type sg = SELL"
  shows "0 \<le> proceeds_of cfg e sg position"
proof -
  have ex: "0 \<le> execution_price cfg sg"
    using assms by (simp add: execution_price_def)
  have "proceeds_of cfg e sg position
          = execution_price cfg sg * sized_quantity cfg e sg * (1 - commission_per_trade cfg)"
    using assms(5)
    by (simp add: proceeds_of_def sell_quantity_of_def commission_of_def min_def algebra_simps)
  moreover have "0 \<le> execution_price cfg sg * sized_quantity cfg e sg * (1 - commission_per_trade cfg)"
    using ex assms(4,6) by simp
  ultimately show ?thesis by simp
qed

lemma operations_preserve_cash:
  assumes "0 \<le> cash (portfolio e)"
    and "sig_type sg = SELL \<longrightarrow> sell_covered cfg e sg"
  shows "0 \<le> cash (portfolio (engine_after (execute_signal cfg sg ts e)))
       \<and> (sig_type sg = BUY \<and>
            cash (portfolio e)
              < execution_price cfg sg * sized_quantity cfg e sg + commission_of cfg e sg
            \<longrightarrow> engine_after (execute_signal cfg sg ts e) = e)
       \<and> (sig_type sg = BUY \<longrightarrow>
            engine_after (execute_signal cfg sg ts e) = e
            \<or> (cash (portfolio (engine_after (execute_signal cfg sg ts e)))
                  = cash (portfolio e)
                    - (execution_price cfg sg * sized_quantity cfg e sg + commission_of cfg e sg)
                \<and> execution_price cfg sg * sized_quantity cfg e sg + commission_of cfg e sg
                    \<le> cash (portfolio e)))
       \<and> (sig_type sg = SELL \<longrightarrow>
            cash (portfolio e) \<le> cash (portfolio (engine_after (execute_signal cfg sg ts e))))
       \<and> cash (portfolio (update_portfolio_values e bar)) = cash (portfolio e)
       \<and> cash (portfolio (record_portfolio_state e ts)) = cash (portfolio e)"
proof -
  have buy: "engine_after (execute_signal cfg sg ts e) = e
            \<or> (cash (portfolio (engine_after (execute_signal cfg sg ts e)))
                  = cash (portfolio e)
                    - (execution_price cfg sg * sized_quantity cfg e sg + commission_of cfg e sg)
                \<and> execution_price cfg sg * sized_quantity cfg e sg + commission_of cfg e sg
                    \<le> cash (portfolio e))" if "sig_type sg = BUY"
    using that execute_buy_cash [of cfg sg ts e]
    by (auto simp: execute_signal_def engine_after_def)
  have rej: "engine_after (execute_signal cfg sg ts e) = e"
    if "sig_type sg = BUY"
      "cash (portfolio e)
         < execution_price cfg sg * sized_quantity cfg e sg + commission_of cfg e sg"
    using that execute_buy_rejected [of e cfg sg ts]
    by (auto simp: execute_signal_def engine_after_def)
  have sell: "cash (portfolio e) \<le> cash (portfolio (engine_after (execute_signal cfg sg ts e)))"
    if s: "sig_type sg = SELL"
  proof -
    from s assms(2) have cov: "sell_covered cfg e sg" by simp
    show ?thesis
    proof (cases "price sg = 0 \<or> sized_quantity cfg e sg \<le> 0
                  \<or> map_of (positions e) (symbol sg) = None")
      case True
      then show ?thesis
        using s by (auto simp: execute_signal_def execute_sell_def engine_after_def)
    next
      case False
      then obtain position where p: "map_of (positions e) (symbol sg) = Some position"
        by auto
      from False have q: "0 < sized_quantity cfg e sg" by simp
      from cov p have "0 \<le> proceeds_of cfg e sg position"
        using proceeds_covered [OF _ _ _ _ _ q s] by (simp add: sell_covered_def)
      then show ?thesis
        using False s p by (simp add: execute_signal_def execute_sell_def engine_after_def)
    qed
  qed
  have other: "engine_after (execute_signal cfg sg ts e) = e"
    if "sig_type sg \<noteq> BUY" "sig_type sg \<noteq> SELL"
    using that by (simp add: execute_signal_def engine_after_def)
  have "0 \<le> cash (portfolio (engine_after (execute_signal cfg sg ts e)))"
  proof (cases "sig_type sg")
    case BUY
    from buy [OF this] assms(1) show ?thesis by auto
  next
    case SELL
    from sell [OF this] assms(1) show ?thesis by simp
  next
    case HOLD
    then show ?thesis using other assms(1) by simp
  next
    case NO_SIGNAL
    then show ?thesis using other assms(1) by simp
  qed
  then show ?thesis
    using buy rej sell by (simp add: cash_after_mark cash_record)
qed

subsection \<open>Runs whose signals are priced at the close\<close>

lemma quantize_down_positive:
  assumes "0 < quantize_down x"
  shows "0 \<le> x \<and> quantize_down x \<le> x"
proof -
  have "0 \<le> x"
  proof (rule ccontr)
    assume "\<not> 0 \<le> x"
    then have "x < 0" by simp
    then have "\<lceil>x\<rceil> \<le> 0" by (simp add: ceiling_le_iff)
    then have "quantize_down x \<le> 0" using \<open>x < 0\<close> by (simp add: quantize_down_def)
    with assms show False by simp
  qed
  then show ?thesis by (simp add: quantize_down_def)
qed

lemma clamped_sale_keeps_cash:
  fixes c h p s k m q :: rat
  assumes "0 \<le> c" "0 \<le> h" "0 < p" "0 \<le> s" "s \<le> 1" "0 \<le> k" "k \<le> 1" "0 \<le> m" "m \<le> 1"
    and q: "q = quantize_down ((c + h * p) * m / p)" "0 < q"
  shows "0 \<le> c + (p * (1 - s) * min q h - p * (1 - s) * q * k)"
proof -
  let ?a = "1 - s"
  have a: "0 \<le> ?a" "?a \<le> 1" using assms by simp_all
  from quantize_down_positive q have "q \<le> (c + h * p) * m / p" by blast
  then have pq: "p * q \<le> (c + h * p) * m"
    using \<open>0 < p\<close> by (simp add: pos_le_divide_eq mult.commute)
  show ?thesis
  proof (cases "q \<le> h")
    case True
    then have "p * ?a * min q h - p * ?a * q * k = p * ?a * q * (1 - k)"
      by (simp add: min_def algebra_simps)
    moreover have "0 \<le> p * ?a * q * (1 - k)"
      using assms a by simp
    ultimately show ?thesis using \<open>0 \<le> c\<close> by simp
  next
    case False
    then have mn: "min q h = h" by simp
    have km: "0 \<le> k * m" "k * m \<le> 1"
      using assms by (simp_all add: mult_le_one)
    have akm: "?a * (k * m) \<le> 1"
      using a km by (simp add: mult_le_one)
    have "?a * k * (p * q) \<le> ?a * k * ((c + h * p) * m)"
      using pq a assms by (intro mult_left_mono) simp_all
    then have "c + (p * ?a * h - p * ?a * q * k)
                 \<ge> c + (p * ?a * h - ?a * k * ((c + h * p) * m))"
      by (simp add: algebra_simps)
    moreover have "c + (p * ?a * h - ?a * k * ((c + h * p) * m))
                     = c * (1 - ?a * (k * m)) + ?a * (p * h) * (1 - k * m)"
      by (simp add: algebra_simps)
    moreover have "0 \<le> c * (1 - ?a * (k * m))"
      using \<open>0 \<le> c\<close> akm by simp
    moreover have "0 \<le> ?a * (p * h) * (1 - k * m)"
      using a assms km by simp
    ultimately show ?thesis using mn by simp
  qed
qed


lemma single_holding_cases:
  "single_holding name e =
     (0 \<le> cash (portfolio e)
      \<and> (positions e = [] \<or> (\<exists>p. positions e = [(name, p)] \<and> 0 \<le> quantity p)))"
  by (auto simp: single_holding_def split: list.splits prod.splits)

lemma single_holding_mark:
  assumes "single_holding name e"
  shows "single_holding name (update_portfolio_values e bar)"
  using assms
  by (auto simp: single_holding_cases update_portfolio_values_def mark_position_def)

lemma total_value_mark_single:
  "positions e = [(name, p)] \<Longrightarrow>
     total_value (portfolio (update_portfolio_values e bar))
       = cash (portfolio e) + quantity p * close bar"
  by (simp add: update_portfolio_values_def)

lemma execute_buy_single:
  assumes "single_holding name e" and "symbol sg = name" and "0 < sized_quantity cfg e sg"
  shows "single_holding name (engine_after (execute_buy cfg sg ts e))"
proof -
  from assms(1) have c: "0 \<le> cash (portfolio e)" by (simp add: single_holding_cases)
  from assms(1) consider "positions e = []"
    | p where "positions e = [(name, p)]" "0 \<le> quantity p"
    by (auto simp: single_holding_cases)
  then show ?thesis
  proof cases
    case 1
    then show ?thesis
      using c assms(2,3)
      by (auto simp: execute_buy_def engine_after_def Let_def single_holding_cases)
  next
    case 2
    then have "quantity p + sized_quantity cfg e sg \<noteq> 0"
      using assms(3) by simp
    with 2 show ?thesis
      using c assms(2,3)
      by (auto simp: execute_buy_def engine_after_def Let_def single_holding_cases)
  qed
qed

lemma execute_sell_single:
  assumes inv: "single_holding name e0"
    and cfg: "fractions_config cfg"
    and sg: "symbol sg = name" "price sg = close bar" "0 < close bar" "sig_type sg = SELL"
    and q: "0 < sized_quantity cfg (update_portfolio_values e0 bar) sg"
  shows "0 \<le> cash (portfolio (engine_after
            (execute_sell cfg sg ts (update_portfolio_values e0 bar))))"
proof -
  let ?e = "update_portfolio_values e0 bar"
  from inv have c: "0 \<le> cash (portfolio e0)" by (simp add: single_holding_cases)
  from inv consider "positions e0 = []"
    | p where "positions e0 = [(name, p)]" "0 \<le> quantity p"
    by (auto simp: single_holding_cases)
  then show ?thesis
  proof cases
    case 1
    then show ?thesis
      using c by (simp add: execute_sell_def engine_after_def update_portfolio_values_def)
  next
    case 2
    let ?p = "mark_position (close bar) p"
    have pos: "map_of (positions ?e) (symbol sg) = Some ?p"
      using 2 sg(1) by (simp add: update_portfolio_values_def)
    have qty: "quantity ?p = quantity p"
      by (simp add: mark_position_def)
    have cash: "cash (portfolio ?e) = cash (portfolio e0)"
      by (simp add: update_portfolio_values_def)
    have tv: "total_value (portfolio ?e) = cash (portfolio e0) + quantity p * close bar"
      using 2(1) by (rule total_value_mark_single)
    have sq: "sized_quantity cfg ?e sg
               = quantize_down ((cash (portfolio e0) + quantity p * close bar)
                                 * max_position_size cfg / close bar)"
      by (simp add: sized_quantity_def tv sg(2))
    have "0 \<le> cash (portfolio e0)
            + (close bar * (1 - slippage cfg)
                 * min (sized_quantity cfg ?e sg) (quantity p)
               - close bar * (1 - slippage cfg) * sized_quantity cfg ?e sg
                 * commission_per_trade cfg)"
      using cfg c 2(2) sg(3) q
      by (intro clamped_sale_keeps_cash [OF _ _ _ _ _ _ _ _ _ sq])
         (simp_all add: fractions_config_def)
    then have "0 \<le> cash (portfolio ?e) + proceeds_of cfg ?e sg ?p"
      by (simp add: proceeds_of_def sell_quantity_of_def commission_of_def execution_price_def
          sg(2,4) qty cash)
    then show ?thesis
      using pos by (simp add: execute_sell_def engine_after_def)
  qed
qed

lemma execute_signal_single:
  assumes inv: "single_holding name e0"
    and cfg: "fractions_config cfg"
    and sg: "symbol sg = name" "price sg = close bar" "0 \<le> close bar"
  shows "outcome_ok name (execute_signal cfg sg ts (update_portfolio_values e0 bar))"
proof -
  let ?e = "update_portfolio_values e0 bar"
  have inv': "single_holding name ?e"
    using inv by (rule single_holding_mark)
  then have c: "0 \<le> cash (portfolio ?e)" by (simp add: single_holding_cases)
  show ?thesis
  proof (cases "sig_type sg \<noteq> BUY \<and> sig_type sg \<noteq> SELL \<or> price sg = 0
                \<or> sized_quantity cfg ?e sg \<le> 0")
    case True
    then show ?thesis
      using inv' c by (auto simp: execute_signal_def outcome_ok_def)
  next
    case False
    then have q: "0 < sized_quantity cfg ?e sg" and p: "0 < close bar"
      using sg by simp_all
    show ?thesis
    proof (cases "sig_type sg = BUY")
      case True
      have "single_holding name (engine_after (execute_buy cfg sg ts ?e))"
        using inv' sg(1) q by (rule execute_buy_single)
      then have "outcome_ok name (execute_buy cfg sg ts ?e)"
        by (auto simp: outcome_ok_def engine_after_def single_holding_cases
            split: sum.splits prod.splits)
      then show ?thesis
        using False True by (simp add: execute_signal_def)
    next
      case notbuy: False
      with False have s: "sig_type sg = SELL" by auto
      have "0 \<le> cash (portfolio (engine_after (execute_sell cfg sg ts ?e)))"
        using inv cfg sg(1,2) p s q by (rule execute_sell_single)
      moreover have "execute_sell cfg sg ts ?e = Inr ?e
                     \<or> (\<exists>x. execute_sell cfg sg ts ?e = Inl x)"
        by (auto simp: execute_sell_def split: option.splits)
      ultimately have "outcome_ok name (execute_sell cfg sg ts ?e)"
        using inv' by (auto simp: outcome_ok_def engine_after_def split: prod.splits)
      then show ?thesis
        using False s by (simp add: execute_signal_def)
    qed
  qed
qed

lemma single_holding_record:
  "single_holding name (record_portfolio_state e ts) = single_holding name e"
  by (simp add: single_holding_def record_portfolio_state_def)

lemma process_bar_single:
  assumes inv: "single_holding name e"
    and cfg: "fractions_config cfg"
    and gen: "prices_at_close gen name"
    and bar: "0 \<le> close bar"
  shows "outcome_ok name (process_bar cfg gen (seen @ [bar]) bar e)"
proof (cases "gen (seen @ [bar])")
  case (Inl err)
  then show ?thesis
    using single_holding_mark [OF inv, of bar]
    by (simp add: process_bar_def outcome_ok_def single_holding_cases)
next
  case (Inr signals)
  with gen have len: "length signals \<le> 1"
    and each: "\<And>sg. sg \<in> set signals \<Longrightarrow> symbol sg = name \<and> price sg = close bar"
    by (auto simp: prices_at_close_def)
  let ?e1 = "update_portfolio_values e bar"
  show ?thesis
  proof (cases signals)
    case Nil
    then show ?thesis
      using Inr single_holding_mark [OF inv, of bar]
      by (simp add: process_bar_def outcome_ok_def single_holding_record)
  next
    case (Cons sg rest)
    with len have rest: "rest = []" by simp
    from each Cons have sg: "symbol sg = name" "price sg = close bar" by simp_all
    have "outcome_ok name (execute_signal cfg sg (timestamp bar) ?e1)"
      using inv cfg sg bar by (rule execute_signal_single)
    then show ?thesis
      using Inr Cons rest
      by (auto simp: process_bar_def outcome_ok_def single_holding_record Let_def
          split: sum.splits prod.splits)
  qed
qed

lemma backtest_loop_single:
  assumes cfg: "fractions_config cfg"
    and gen: "prices_at_close gen name"
  shows "single_holding name e \<Longrightarrow> \<forall>b \<in> set bars. 0 \<le> close b \<Longrightarrow>
         outcome_ok name (backtest_loop cfg gen seen bars e)"
proof (induction bars arbitrary: seen e)
  case Nil
  then show ?case by (simp add: outcome_ok_def)
next
  case (Cons bar bars)
  then have b: "0 \<le> close bar" by simp
  have step: "outcome_ok name (process_bar cfg gen (seen @ [bar]) bar e)"
    using Cons.prems(1) cfg gen b by (rule process_bar_single)
  show ?case
  proof (cases "process_bar cfg gen (seen @ [bar]) bar e")
    case (Inl x)
    with step show ?thesis by (simp add: outcome_ok_def)
  next
    case (Inr e')
    with step have "single_holding name e'" by (simp add: outcome_ok_def)
    with Cons.IH [of e' "seen @ [bar]"] Cons.prems(2) Inr show ?thesis by simp
  qed
qed

lemma outcome_ok_cash: "outcome_ok name r \<Longrightarrow> 0 \<le> cash (portfolio (engine_after r))"
  by (auto simp: outcome_ok_def engine_after_def single_holding_cases split: sum.splits prod.splits)

lemma run_keeps_cash:
  assumes "fractions_config cfg" and "prices_at_close gen name"
    and "0 \<le> initial_capital cfg" and "\<forall>b \<in> set bars. 0 \<le> close b"
  shows "0 \<le> cash (portfolio (engine_after (backtest_loop cfg gen [] bars (BacktestEngine cfg))))"
proof -
  have "single_holding name (BacktestEngine cfg)"
    using assms(3) by (simp add: single_holding_def BacktestEngine_def)
  from backtest_loop_single [OF assms(1,2) this assms(4)] show ?thesis
    by (rule outcome_ok_cash)
qed

lemma sma_prices_at_close:
  "prices_at_close (sma_generate_signals s) (cfg_symbol (config s))"
proof -
  have "length signals \<le> 1
        \<and> (\<forall>sg \<in> set signals. symbol sg = cfg_symbol (config s) \<and> price sg = close (last cd))"
    if "sma_generate_signals s cd = Inr signals" for cd signals
  proof (cases "cd = []")
    case True
    with that show ?thesis
      by (auto simp: sma_generate_signals_def py_get_def split: option.splits)
  next
    case False
    then have "py_get cd (- 1) = Inr (last cd)" by (rule py_get_last)
    with that show ?thesis
      by (auto simp: sma_generate_signals_def Let_def split: option.splits sum.splits if_splits)
  qed
  then show ?thesis by (simp add: prices_at_close_def)
qed

lemma multi_vote_priced:
  "\<forall>sg \<in> set (multi_vote cfg bar a b c d e f). symbol sg = cfg_symbol cfg \<and> price sg = close bar"
  "length (multi_vote cfg bar a b c d e f) \<le> 1"
  by (simp_all add: multi_vote_def Let_def)

lemma multi_prices_at_close:
  "prices_at_close (multi_generate_signals s) (cfg_symbol (config s))"
proof -
  have "length signals \<le> 1
        \<and> (\<forall>sg \<in> set signals. symbol sg = cfg_symbol (config s) \<and> price sg = close (last cd))"
    if "multi_generate_signals s cd = Inr signals" for cd signals
  proof (cases "cd = []")
    case True
    with that show ?thesis
      by (auto simp: multi_generate_signals_def py_get_def split: option.splits)
  next
    case False
    then have "py_get cd (- 1) = Inr (last cd)" by (rule py_get_last)
    with that multi_vote_priced [of "config s" "last cd"] show ?thesis
      by (auto simp: multi_generate_signals_def Let_def
          split: option.splits sum.splits if_splits)
  qed
  then show ?thesis by (simp add: prices_at_close_def)
qed

subsection \<open>The claim\<close>

text \<open>
  Claim C9, as stated: the cash is never negative in a reachable state, since a BUY is
  rejected or debits at most the cash and an executed SELL only credits cash. The
  commission of a SELL is charged on the sized quantity, before the sale is clamped to
  the holding. With signals priced at the close of the bar: after buying one unit at 6000
  the cash is 93990.997, and the SELL at 5 (sized to 1879 units, clamped to 1) takes it
  to 93986.6041975, a debit. With a strategy that is free in pricing its signals
  (\<^const>\<open>draining_signals\<close>), the cash is 0.175075 after the BUYs and the SELL leaves it
  at -0.81443.
\<close>

theorem sell_debits_cash:
  "cash (portfolio (engine_after (backtest_loop default_config buy_then_sell []
           [bar_at 0 6000] (BacktestEngine default_config)))) = 93990997 / 1000
   \<and> backtest_loop default_config buy_then_sell [] [bar_at 0 6000, bar_at 1 5]
           (BacktestEngine default_config)
       = Inl (AttributeError,
              engine_after (backtest_loop default_config buy_then_sell []
                 [bar_at 0 6000, bar_at 1 5] (BacktestEngine default_config)))
   \<and> cash (portfolio (engine_after (backtest_loop default_config buy_then_sell []
           [bar_at 0 6000, bar_at 1 5] (BacktestEngine default_config))))
       = 37594641679 / 400000
   \<and> cash (portfolio (engine_after (process_bar default_config
           (\<lambda>current_data. Inr draining_signals) [bar_at 0 100] (bar_at 0 100)
           (BacktestEngine default_config)))) = - (81443 / 100000)"
  by code_simp

text \<open>
  Claim C9, amended. For the single operations, given cash that is not negative: a BUY whose
  total cost exceeds the cash is rejected with the engine unchanged, and an accepted BUY
  debits its cost, which is at most the cash; a SELL that is not clamped (the holding
  covers the sized quantity), at a price that is not negative, a slippage of at most 1 and
  a commission rate between 0 and 1, only credits cash; marking to market and recording
  leave the cash as it is. A clamped SELL pays the commission of the sized quantity and
  may debit cash. For the runs: when the strategy emits at most one signal per bar, for
  one symbol and priced at the close of the bar (as the strategies of the repository do),
  the closes are not negative, and slippage, commission rate and position size are
  fractions between 0 and 1, then from an initial capital that is not negative the cash
  is not negative after any number of bars, whether the loop returns or raises.
\<close>

theorem cash_stays_non_negative:
  "(0 \<le> cash (portfolio e) \<and> (sig_type sg = SELL \<longrightarrow> sell_covered cfg e sg)
      \<longrightarrow>
        0 \<le> cash (portfolio (engine_after (execute_signal cfg sg ts e)))
        \<and> (sig_type sg = BUY \<and>
             cash (portfolio e)
               < execution_price cfg sg * sized_quantity cfg e sg + commission_of cfg e sg
             \<longrightarrow> engine_after (execute_signal cfg sg ts e) = e)
        \<and> (sig_type sg = BUY \<longrightarrow>
             engine_after (execute_signal cfg sg ts e) = e
             \<or> (cash (portfolio (engine_after (execute_signal cfg sg ts e)))
                   = cash (portfolio e)
                     - (execution_price cfg sg * sized_quantity cfg e sg + commission_of cfg e sg)
                 \<and> execution_price cfg sg * sized_quantity cfg e sg + commission_of cfg e sg
                     \<le> cash (portfolio e)))
        \<and> (sig_type sg = SELL \<longrightarrow>
             cash (portfolio e) \<le> cash (portfolio (engine_after (execute_signal cfg sg ts e))))
        \<and> cash (portfolio (update_portfolio_values e bar)) = cash (portfolio e)
        \<and> cash (portfolio (record_portfolio_state e ts)) = cash (portfolio e))
   \<and> (fractions_config cfg \<and> prices_at_close gen name \<and> 0 \<le> initial_capital cfg
        \<and> list_all (\<lambda>b. 0 \<le> close b) bars
      \<longrightarrow>
        0 \<le> cash (portfolio (engine_after
                (backtest_loop cfg gen [] bars (BacktestEngine cfg)))))"
proof -
  have run: "fractions_config cfg \<and> prices_at_close gen name \<and> 0 \<le> initial_capital cfg
        \<and> list_all (\<lambda>b. 0 \<le> close b) bars
      \<longrightarrow>
        0 \<le> cash (portfolio (engine_after
                (backtest_loop cfg gen [] bars (BacktestEngine cfg))))"
    using run_keeps_cash [of cfg gen name bars] by (simp add: list_all_iff)
  have op: "0 \<le> cash (portfolio e) \<and> (sig_type sg = SELL \<longrightarrow> sell_covered cfg e sg)
      \<longrightarrow>
        0 \<le> cash (portfolio (engine_after (execute_signal cfg sg ts e)))
        \<and> (sig_type sg = BUY \<and>
             cash (portfolio e)
               < execution_price cfg sg * sized_quantity cfg e sg + commission_of cfg e sg
             \<longrightarrow> engine_after (execute_signal cfg sg ts e) = e)
        \<and> (sig_type sg = BUY \<longrightarrow>
             engine_after (execute_signal cfg sg ts e) = e
             \<or> (cash (portfolio (engine_after (execute_signal cfg sg ts e)))
                   = cash (portfolio e)
                     - (execution_price cfg sg * sized_quantity cfg e sg + commission_of cfg e sg)
                 \<and> execution_price cfg sg * sized_quantity cfg e sg + commission_of cfg e sg
                     \<le> cash (portfolio e)))
        \<and> (sig_type sg = SELL \<longrightarrow>
             cash (portfolio e) \<le> cash (portfolio (engine_after (execute_signal cfg sg ts e))))
        \<and> cash (portfolio (update_portfolio_values e bar)) = cash (portfolio e)
        \<and> cash (portfolio (record_portfolio_state e ts)) = cash (portfolio e)"
  proof
    assume "0 \<le> cash (portfolio e) \<and> (sig_type sg = SELL \<longrightarrow> sell_covered cfg e sg)"
    then have a: "0 \<le> cash (portfolio e)" "sig_type sg = SELL \<longrightarrow> sell_covered cfg e sg"
      by simp_all
    show "0 \<le> cash (portfolio (engine_after (execute_signal cfg sg ts e)))
        \<and> (sig_type sg = BUY \<and>
             cash (portfolio e)
               < execution_price cfg sg * sized_quantity cfg e sg + commission_of cfg e sg
             \<longrightarrow> engine_after (execute_signal cfg sg ts e) = e)
        \<and> (sig_type sg = BUY \<longrightarrow>
             engine_after (execute_signal cfg sg ts e) = e
             \<or> (cash (portfolio (engine_after (execute_signal cfg sg ts e)))
                   = cash (portfolio e)
                     - (execution_price cfg sg * sized_quantity cfg e sg + commission_of cfg e sg)
                 \<and> execution_price cfg sg * sized_quantity cfg e sg + commission_of cfg e sg
                     \<le> cash (portfolio e)))
        \<and> (sig_type sg = SELL \<longrightarrow>
             cash (portfolio e) \<le> cash (portfolio (engine_after (execute_signal cfg sg ts e))))
        \<and> cash (portfolio (update_portfolio_values e bar)) = cash (portfolio e)
        \<and> cash (portfolio (record_portfolio_state e ts)) = cash (portfolio e)"
      by (rule operations_preserve_cash [OF a])
  qed
  show ?thesis by (rule conjI [OF op run])
qed

theorem cash_stays_non_negative_witness:
  "0 \<le> cash (portfolio holding_engine)
   \<and> sell_covered default_config holding_engine (test_signal SELL 100)
   \<and> 0 \<le> cash (portfolio (engine_after
             (execute_signal default_config (test_signal SELL 100) 1 holding_engine)))
   \<and> cash (portfolio holding_engine)
       \<le> cash (portfolio (engine_after
             (execute_signal default_config (test_signal SELL 100) 1 holding_engine)))
   \<and> fractions_config default_config
   \<and> prices_at_close (sma_generate_signals (initialize crossover_strategy series_up)) ''TEST''
   \<and> 0 \<le> initial_capital default_config
   \<and> list_all (\<lambda>b. 0 \<le> close b) series_up
   \<and> 0 \<le> cash (portfolio (engine_after
             (backtest_loop default_config
                (sma_generate_signals (initialize crossover_strategy series_up)) []
                series_up (BacktestEngine default_config))))"
proof -
  have a: "0 \<le> cash (portfolio holding_engine)"
    by (simp add: holding_engine_def)
  have b: "sell_covered default_config holding_engine (test_signal SELL 100)"
    unfolding sell_covered_def sized_holding_100
    by (simp add: default_config_def holding_engine_def test_signal_def)
  have c: "sig_type (test_signal SELL 100) = SELL"
    by (simp add: test_signal_def)
  have d: "fractions_config default_config" "0 \<le> initial_capital default_config"
    by (simp_all add: fractions_config_def default_config_def)
  have "cfg_symbol (config (initialize crossover_strategy series_up)) = ''TEST''"
    by (simp add: initialize_def update_indicators_def crossover_strategy_def)
  with sma_prices_at_close [of "initialize crossover_strategy series_up"]
  have f: "prices_at_close (sma_generate_signals (initialize crossover_strategy series_up)) ''TEST''"
    by simp
  have g: "list_all (\<lambda>b. 0 \<le> close b) series_up"
    by (simp add: series_up_def bar_at_def)
  show ?thesis
    using cash_stays_non_negative [where e = holding_engine and sg = "test_signal SELL 100"
        and cfg = default_config and ts = 1
        and gen = "sma_generate_signals (initialize crossover_strategy series_up)"
        and name = "''TEST''" and bars = series_up]
      a b c d f g by simp
qed


section \<open>What the signals of a step depend on\<close>

lemma py_get_last_append: "py_get (xs @ [x]) (- 1) = Inr x"
  by (simp add: py_get_def)

lemma sma_signals_depend_on_last_bar:
  "sma_generate_signals s (seen @ [bar]) = sma_generate_signals s [bar]"
proof -
  have a: "py_get (seen @ [bar]) (- 1) = Inr bar"
    by (rule py_get_last_append)
  have b: "py_get [bar] (- 1) = Inr bar"
    using py_get_last_append [of "[]" bar] by simp
  show ?thesis
    by (simp only: sma_generate_signals_def a b)
qed

text \<open>
  Claim C2 says that the signals of step \<open>i\<close> depend on the bars up to \<open>i\<close> only, whatever
  the later bars and the data pulled by \<^verbatim>\<open>initialize\<close> are. The engine passes the
  prefix, but \<^verbatim>\<open>generate_signals\<close> reads from it the last bar's close and timestamp only
  (\<open>sma_signals_depend_on_last_bar\<close>); its averages come from the calculator that
  \<^verbatim>\<open>initialize\<close> built from a window of history ending now, and nothing updates that
  calculator during the run. Two series that agree on their first bar, each given to
  \<^verbatim>\<open>initialize\<close> in full as the provider would serve it, yield a BUY and a SELL at step 0.
\<close>

theorem signals_follow_the_initialize_data:
  "take 1 series_up = take 1 series_down
   \<and> sma_generate_signals (initialize crossover_strategy series_up) (take 1 series_up)
       = Inr [\<lparr>symbol = ''TEST'', sig_type = BUY, sig_timestamp = 0, price = 100,
                confidence = 7 / 10,
                sig_metadata = [(''short_sma'', MFloat 110), (''long_sma'', MFloat 100),
                                (''strategy'', MStr ''SMA Crossover'')]\<rparr>]
   \<and> sma_generate_signals (initialize crossover_strategy series_down) (take 1 series_down)
       = Inr [\<lparr>symbol = ''TEST'', sig_type = SELL, sig_timestamp = 0, price = 100,
                confidence = 7 / 10,
                sig_metadata = [(''short_sma'', MFloat 90), (''long_sma'', MFloat 100),
                                (''strategy'', MStr ''SMA Crossover'')]\<rparr>]"
  by code_simp


section \<open>The multi-indicator vote\<close>

subsection \<open>The vote on available values\<close>

text \<open>
  The trend vote weighs one half and the three others one, out of a total of 3.5; BUY is
  tested first, at a buy fraction of at least 0.6, then SELL at a sell fraction of at least
  0.6; the confidence is the fraction that won. The code's availability test differs from
  the test for \<^verbatim>\<open>None\<close> only where some indicator value is exactly zero.
\<close>

lemma votes_weights:
  "buy_votes cp sma rsi m sg bu bl
     = (if rsi \<le> 30 then 1 else 0) + (if m > sg then 1 else 0)
       + (if cp \<le> bl then 1 else 0) + (if cp > sma then 1 / 2 else 0)"
  "sell_votes cp sma rsi m sg bu bl
     = (if rsi \<le> 30 then 0 else if rsi \<ge> 70 then 1 else 0) + (if m > sg then 0 else 1)
       + (if cp \<le> bl then 0 else if cp \<ge> bu then 1 else 0) + (if cp > sma then 0 else 1 / 2)"
  by (simp_all add: buy_votes_def sell_votes_def)

lemma multi_vote_thresholds:
  "map (\<lambda>x. (sig_type x, confidence x)) (multi_vote cfg bar sma rsi m sg bu bl) =
     (let b = buy_votes (of_rat (close bar)) sma rsi m sg bu bl / (7 / 2);
          sl = sell_votes (of_rat (close bar)) sma rsi m sg bu bl / (7 / 2)
      in if 6 / 10 \<le> b then [(BUY, b)]
         else if 6 / 10 \<le> sl then [(SELL, sl)]
         else [])"
  by (simp add: multi_vote_def Let_def)

lemma code_agrees_when_no_zero:
  assumes "multi_generate_signals_non_null s cd \<noteq> multi_generate_signals s cd"
  shows "\<exists>calc q d k. indicator_calculator s = Some calc \<and> run_query calc q = Inr d
           \<and> value_get (ind_value d) k = Some 0"
proof -
  have tr: "truthy v = (available v \<and> v \<noteq> Some 0)" for v
    by (cases v) (simp_all add: truthy_def available_def)
  from assms obtain calc where c: "indicator_calculator s = Some calc"
    by (cases "indicator_calculator s")
       (auto simp: multi_generate_signals_def multi_generate_signals_non_null_def)
  from assms c obtain bar where b: "py_get cd (- 1) = Inr bar"
    by (cases "py_get cd (- 1)")
       (auto simp: multi_generate_signals_def multi_generate_signals_non_null_def)
  from assms c b obtain ds where ds: "calculate_sma calc 20 = Inr ds"
    by (cases "calculate_sma calc 20")
       (auto simp: multi_generate_signals_def multi_generate_signals_non_null_def)
  from assms c b ds obtain dr where dr: "calculate_rsi calc 14 = Inr dr"
    by (cases "calculate_rsi calc 14")
       (auto simp: multi_generate_signals_def multi_generate_signals_non_null_def)
  from assms c b ds dr obtain dm where dm: "calculate_macd calc 12 26 9 = Inr dm"
    by (cases "calculate_macd calc 12 26 9")
       (auto simp: multi_generate_signals_def multi_generate_signals_non_null_def)
  from assms c b ds dr dm obtain db where db: "calculate_bollinger_bands calc 20 2 = Inr db"
    by (cases "calculate_bollinger_bands calc 20 2")
       (auto simp: multi_generate_signals_def multi_generate_signals_non_null_def)
  from assms have
    "value_get (ind_value ds) ''sma'' = Some 0 \<or> value_get (ind_value dr) ''rsi'' = Some 0
     \<or> value_get (ind_value dm) ''macd'' = Some 0 \<or> value_get (ind_value dm) ''signal'' = Some 0
     \<or> value_get (ind_value db) ''upper'' = Some 0 \<or> value_get (ind_value db) ''lower'' = Some 0"
    unfolding multi_generate_signals_def multi_generate_signals_non_null_def c b
    by (simp add: ds dr dm db tr Let_def split: if_splits)
  moreover have "run_query calc (Calculate_sma 20) = Inr ds" "run_query calc (Calculate_rsi 14) = Inr dr"
    "run_query calc (Calculate_macd 12 26 9) = Inr dm"
    "run_query calc (Calculate_bollinger_bands 20 2) = Inr db"
    using ds dr dm db by simp_all
  ultimately show ?thesis using c by blast
qed

subsection \<open>A value of zero\<close>

lemma decline_closes:
  "close_prices (IndicatorCalculator decline_series) = replicate 14 110 @ replicate 20 100"
  by code_simp

lemma decline_last_timestamp:
  "py_get (timestamps (IndicatorCalculator decline_series)) (- 1) = Inr 33"
  by code_simp

lemma decline_sma:
  "(case calculate_sma (IndicatorCalculator decline_series) 20 of
      Inl e \<Rightarrow> False
    | Inr d \<Rightarrow> value_get (ind_value d) ''sma'' = Some 100)"
  by code_simp

lemma decline_rsi:
  "(case calculate_rsi (IndicatorCalculator decline_series) 14 of
      Inl e \<Rightarrow> False
    | Inr d \<Rightarrow> value_get (ind_value d) ''rsi'' = Some 0)"
  by code_simp

lemma decline_macd:
  "(case calculate_macd (IndicatorCalculator decline_series) 12 26 9 of
      Inl e \<Rightarrow> False
    | Inr d \<Rightarrow>
        (case (value_get (ind_value d) ''macd'', value_get (ind_value d) ''signal'') of
           (Some m, Some sg) \<Rightarrow> sg < m
         | _ \<Rightarrow> False))"
  by code_simp

lemma np_std_constant: "np_std (replicate n c) = 0"
proof (cases "n = 0")
  case True
  then show ?thesis by (simp add: np_std_def)
next
  case False
  have "sum_list (replicate n c) = real n * c"
    by (induction n) (simp_all add: algebra_simps)
  then have "sum_list (replicate n c) / real (length (replicate n c)) = c"
    using False by simp
  then show ?thesis
    by (simp add: np_std_def Let_def sum_list_replicate)
qed

lemma decline_last_window:
  "take 20 (drop 14 (replicate 14 110 @ replicate 20 (100::real))) = replicate 20 100"
  by simp

lemma decline_bollinger:
  "\<exists>d. calculate_bollinger_bands (IndicatorCalculator decline_series) 20 2 = Inr d
      \<and> value_get (ind_value d) ''upper'' = Some 100
      \<and> value_get (ind_value d) ''lower'' = Some 100"
proof -
  let ?p = "replicate 14 110 @ replicate 20 (100::real)"
  let ?ws = "map (\<lambda>i. take 20 (drop i ?p)) [0 ..< length ?p - 20 + 1]"
  have ws: "?ws \<noteq> []" "last ?ws = replicate 20 100"
    by (simp_all add: last_map)
  have sm: "sum_list (replicate 20 (100::real)) / 20 = 100"
    by (simp add: sum_list_replicate)
  have up: "latest (map (\<lambda>w. sum_list w / real 20 + 2 * np_std w) ?ws) = Some 100"
    unfolding latest_def using ws sm by (simp add: last_map np_std_constant del: upt_Suc)
  have lo: "latest (map (\<lambda>w. sum_list w / real 20 - 2 * np_std w) ?ws) = Some 100"
    unfolding latest_def using ws sm by (simp add: last_map np_std_constant del: upt_Suc)
  have bb: "bollinger_bands ?p 20 2
              = Inr \<lparr>upper = map (\<lambda>w. sum_list w / real 20 + 2 * np_std w) ?ws,
                     middle = map (\<lambda>w. sum_list w / real 20) ?ws,
                     lower = map (\<lambda>w. sum_list w / real 20 - 2 * np_std w) ?ws\<rparr>"
    by (simp add: bollinger_bands_def Let_def del: upt_Suc)
  show ?thesis
    unfolding calculate_bollinger_bands_def decline_closes bb decline_last_timestamp
    using up lo by (simp add: value_get_def del: upt_Suc)
qed


lemma multi_vote_buy:
  assumes "sg < m" and "close bar = 101"
  shows "\<exists>x. multi_vote cfg bar 100 0 m sg 100 100 = [x]
           \<and> sig_type x = BUY \<and> confidence x = 5 / 7 \<and> price x = 101"
  using assms
  by (simp add: multi_vote_def buy_votes_def sell_votes_def Let_def)

text \<open>
  Claim C6 says, among other things, that a signal is withheld exactly when one of the
  four indicator values is unavailable, and that an available value of 0 does not suppress
  the signal. The code tests \<^verbatim>\<open>not all([...])\<close>, which is also true for a value of
  \<^verbatim>\<open>0.0\<close>. On the history \<^const>\<open>decline_series\<close> all values are available and the RSI is
  0 (the strongest oversold reading); at a bar closing at 101 the votes are RSI buy, MACD
  above its signal line buy, price above the upper band sell, price above SMA(20) half a
  buy: a buy fraction of 2.5 / 3.5. The code returns no signal; with the test for
  \<^verbatim>\<open>None\<close> it is a BUY of confidence 5/7.
\<close>

theorem zero_rsi_suppresses_the_signal:
  "(case calculate_rsi (IndicatorCalculator decline_series) 14 of
      Inl e \<Rightarrow> False
    | Inr d \<Rightarrow> value_get (ind_value d) ''rsi'' = Some 0)
   \<and> multi_generate_signals (initialize multi_strategy decline_series) [bar_at 34 101] = Inr []
   \<and> (\<exists>x. multi_generate_signals_non_null (initialize multi_strategy decline_series)
             [bar_at 34 101] = Inr [x]
          \<and> sig_type x = BUY \<and> confidence x = 5 / 7 \<and> price x = 101)"
proof -
  let ?c = "IndicatorCalculator decline_series"
  obtain ds where ds: "calculate_sma ?c 20 = Inr ds" "value_get (ind_value ds) ''sma'' = Some 100"
    using decline_sma by (auto split: sum.splits)
  obtain dr where dr: "calculate_rsi ?c 14 = Inr dr" "value_get (ind_value dr) ''rsi'' = Some 0"
    using decline_rsi by (auto split: sum.splits)
  obtain dm m sg where dm: "calculate_macd ?c 12 26 9 = Inr dm"
    "value_get (ind_value dm) ''macd'' = Some m" "value_get (ind_value dm) ''signal'' = Some sg"
    "sg < m"
    using decline_macd by (auto split: sum.splits option.splits)
  obtain db where db: "calculate_bollinger_bands ?c 20 2 = Inr db"
    "value_get (ind_value db) ''upper'' = Some 100" "value_get (ind_value db) ''lower'' = Some 100"
    using decline_bollinger by blast
  have calc: "indicator_calculator (initialize multi_strategy decline_series) = Some ?c"
    by (simp add: initialize_def update_indicators_def)
  have bar: "py_get [bar_at 34 101] (- 1) = Inr (bar_at 34 101)"
    by (simp add: py_get_def)
  have code: "multi_generate_signals (initialize multi_strategy decline_series) [bar_at 34 101]
                = Inr []"
    unfolding multi_generate_signals_def calc bar
    by (simp add: ds dr dm db truthy_def)
  obtain x where x: "multi_vote (config (initialize multi_strategy decline_series))
                       (bar_at 34 101) 100 0 m sg 100 100 = [x]"
    "sig_type x = BUY" "confidence x = 5 / 7" "price x = 101"
    using multi_vote_buy [OF dm(4), of "bar_at 34 101"] by (auto simp: bar_at_def)
  have "multi_generate_signals_non_null (initialize multi_strategy decline_series)
          [bar_at 34 101] = Inr [x]"
    unfolding multi_generate_signals_non_null_def calc bar
    by (simp add: ds dr dm db available_def x)
  with x code decline_rsi show ?thesis by blast
qed


section \<open>Scenario B: RSI(14) after a single drop\<close>

text \<open>
  Claim C4, as stated: RSI(14) over 15 flat values of 50 followed by a drop to 40 returns
  exactly one value, below 50. That series has 16 prices, so 15 changes: the first 14
  are all zero and give the value 100 (no loss), the drop gives a second value, 0. The
  function returns two values and the first is not below 50.
\<close>

theorem rsi_fifteen_flat_then_drop:
  "relative_strength_index (replicate 15 50 @ [40]) 14 = Inr [100, 0]
   \<and> \<not> (\<exists>r. relative_strength_index (replicate 15 50 @ [40]) 14 = Inr [r] \<and> r < 50)"
proof -
  have "relative_strength_index (replicate 15 50 @ [40]) 14 = Inr [100, 0]"
    by code_simp
  then show ?thesis by simp
qed

text \<open>
  Claim C4, amended: RSI(14) over a series of 15 prices, 14 flat values of 50 followed by
  a drop to 40 (the series of the repository's test), returns exactly one value, and it is
  0, hence below 50.
\<close>

theorem rsi_fourteen_flat_then_drop:
  "relative_strength_index (replicate 14 50 @ [40]) 14 = Inr [0]
   \<and> (\<exists>r. relative_strength_index (replicate 14 50 @ [40]) 14 = Inr [r] \<and> r < 50)"
proof -
  have "relative_strength_index (replicate 14 50 @ [40]) 14 = Inr [0]"
    by code_simp
  then show ?thesis by simp
qed


section \<open>Scenario C: the arithmetic of a BUY\<close>

lemma scenario_c_sized:
  "sized_quantity scenario_c_config (BacktestEngine scenario_c_config) scenario_c_signal = 10"
  by (simp add: sized_quantity_def scenario_c_config_def BacktestEngine_def
      scenario_c_signal_def quantize_down_def)

text \<open>
  Claim C7: a BUY signal at price 100 that is sized to 10 units, with slippage 0.0005 and
  commission rate 0.001, executes at exactly 100.05 with a commission of exactly 1.0005; the
  order is accepted when the cash covers 1001.5005, the cash is debited by exactly that
  amount and the trade records the quantity, the price and the commission. (A position
  already held in the symbol is merged into; the degenerate holding of minus ten units,
  whose merge divides by zero, is excluded.)
\<close>

theorem scenario_c_buy:
  assumes "sig_type sg = BUY" and "price sg = 100"
    and "slippage cfg = 5 / 10000" and "commission_per_trade cfg = 1 / 1000"
    and "sized_quantity cfg e sg = 10"
    and "case map_of (positions e) (symbol sg) of
           None \<Rightarrow> True | Some position \<Rightarrow> quantity position + 10 \<noteq> 0"
    and "10015005 / 10000 \<le> cash (portfolio e)"
  shows "execution_price cfg sg = 10005 / 100
       \<and> commission_of cfg e sg = 10005 / 10000
       \<and> (\<exists>e'. execute_signal cfg sg ts e = Inr e'
              \<and> cash (portfolio e') = cash (portfolio e) - 10015005 / 10000
              \<and> trades e' = trades e @
                   [\<lparr>trade_symbol = symbol sg, side = OrderBUY, trade_quantity = 10,
                     trade_price = 10005 / 100, trade_timestamp = ts,
                     commission = 10005 / 10000, pnl = None\<rparr>])"
proof -
  have ep: "execution_price cfg sg = 10005 / 100"
    unfolding execution_price_def assms(1-4) by simp
  have cm: "commission_of cfg e sg = 10005 / 10000"
    unfolding commission_of_def ep assms(1-5) by simp
  have cost: "execution_price cfg sg * sized_quantity cfg e sg + commission_of cfg e sg
                = 10015005 / 10000"
    unfolding ep cm assms(5) by simp
  have ncost: "\<not> cash (portfolio e) < 10015005 / 10000"
    using assms(7) by simp
  have sig: "execute_signal cfg sg ts e = execute_buy cfg sg ts e"
    unfolding execute_signal_def assms(1,2,5) by simp
  have "\<exists>e'. execute_buy cfg sg ts e = Inr e'
              \<and> cash (portfolio e') = cash (portfolio e) - 10015005 / 10000
              \<and> trades e' = trades e @
                   [\<lparr>trade_symbol = symbol sg, side = OrderBUY, trade_quantity = 10,
                     trade_price = 10005 / 100, trade_timestamp = ts,
                     commission = 10005 / 10000, pnl = None\<rparr>]"
  proof (cases "map_of (positions e) (symbol sg)")
    case None
    then show ?thesis
      unfolding execute_buy_def Let_def cost ep cm assms(5) using ncost by simp
  next
    case (Some position)
    with assms(6) have "quantity position + 10 \<noteq> 0" by simp
    with Some show ?thesis
      unfolding execute_buy_def Let_def cost ep cm assms(5) using ncost by simp
  qed
  with sig ep cm show ?thesis by simp
qed

theorem scenario_c_buy_witness:
  "sized_quantity scenario_c_config (BacktestEngine scenario_c_config) scenario_c_signal = 10
   \<and> execution_price scenario_c_config scenario_c_signal = 10005 / 100
   \<and> commission_of scenario_c_config (BacktestEngine scenario_c_config) scenario_c_signal
       = 10005 / 10000
   \<and> (\<exists>e'. execute_signal scenario_c_config scenario_c_signal 0
               (BacktestEngine scenario_c_config) = Inr e'
          \<and> cash (portfolio e') = 10000 - 10015005 / 10000)"
proof -
  have a: "sig_type scenario_c_signal = BUY" "price scenario_c_signal = 100"
    by (simp_all add: scenario_c_signal_def)
  have b: "slippage scenario_c_config = 5 / 10000"
    "commission_per_trade scenario_c_config = 1 / 1000"
    by (simp_all add: scenario_c_config_def)
  have c: "case map_of (positions (BacktestEngine scenario_c_config)) (symbol scenario_c_signal) of
             None \<Rightarrow> True | Some position \<Rightarrow> quantity position + 10 \<noteq> 0"
    by (simp add: BacktestEngine_def)
  have d: "10015005 / 10000 \<le> cash (portfolio (BacktestEngine scenario_c_config))"
    by (simp add: BacktestEngine_def scenario_c_config_def)
  have e: "cash (portfolio (BacktestEngine scenario_c_config)) = 10000"
    by (simp add: BacktestEngine_def scenario_c_config_def)
  show ?thesis
    using scenario_c_buy [OF a b scenario_c_sized c d, of 0] scenario_c_sized e by auto
qed


section \<open>Scenario D: an empty historical series\<close>

text \<open>
  Claim C8: on an empty historical series \<^verbatim>\<open>run_backtest\<close> raises ValueError, whatever
  the strategy and the configuration are; it returns no result, and the engine (portfolio,
  positions, trades, history) is as it was, the strategy not having been initialised.
\<close>

theorem run_backtest_empty_series:
  "run_backtest cfg init gen s [] e = Inl (ValueError, e)
   \<and> (\<forall>r. run_backtest cfg init gen s [] e \<noteq> Inr r)"
  by (simp add: run_backtest_def)

end
